theory Spec2Isabelle
  imports Complex_Main
begin

section \<open>The table and the values the script computes with\<close>

text \<open>
  The script \<open>app.py\<close> reads a CSV file into a pandas data frame \<open>df\<close> and, in its
  "Key Insights" part (lines 63 to 114), writes five derived facts. The model below covers
  that part together with what decides, in the lines before it, whether a run gets there
  and with which variables: \<open>numeric_cols\<close> (line 39), \<open>corr\<close> (line 48, bound only when
  \<open>numeric_cols\<close> is not empty), \<open>categorical_cols\<close> (line 53) and the bar chart of
  line 57. Other rendering calls (\<open>st.write\<close>, the other plots) are represented by the value
  they are given.

  A data frame is the list of its columns in declaration order, each with its label.
  pandas keeps labels read from a CSV file unique, so a label is kept together with the
  cells that \<open>df[label]\<close> reads. A cell of a float column is a real number or NaN; NaN,
  the missing text cell and NaT are \<open>None\<close>. A timestamp is its number of nanoseconds
  since the epoch.

  Three calls into pandas are not computed here but taken as given, in the record
  \<open>pandas\<close> below: the correlation matrix, the order that sorting gives to equal values,
  and the conversion of a text column to timestamps. The arithmetic of the script itself
  (quartile bounds, relative frequencies, means) is written over exact reals.
\<close>

datatype error = NameError | ValueError

type_synonym pyfloat = "real option"

datatype column =
    NumCol "pyfloat list"
  | ObjCol "string option list"
  | DtCol "int option list"
  | BoolCol "bool list"

type_synonym table = "(string \<times> column) list"

text \<open>Float arithmetic and comparison with NaN: NaN propagates, every comparison with it is false.\<close>

fun fadd :: "pyfloat \<Rightarrow> pyfloat \<Rightarrow> pyfloat" where
  "fadd (Some a) (Some b) = Some (a + b)"
| "fadd _ _ = None"

fun fsub :: "pyfloat \<Rightarrow> pyfloat \<Rightarrow> pyfloat" where
  "fsub (Some a) (Some b) = Some (a - b)"
| "fsub _ _ = None"

fun fmul :: "pyfloat \<Rightarrow> pyfloat \<Rightarrow> pyfloat" where
  "fmul (Some a) (Some b) = Some (a * b)"
| "fmul _ _ = None"

fun flt :: "pyfloat \<Rightarrow> pyfloat \<Rightarrow> bool" where
  "flt (Some a) (Some b) = (a < b)"
| "flt _ _ = False"

fun fgt :: "pyfloat \<Rightarrow> pyfloat \<Rightarrow> bool" where
  "fgt (Some a) (Some b) = (a > b)"
| "fgt _ _ = False"

text \<open>\<open>isna\<close>: the test for a missing cell.\<close>

fun isna :: "'a option \<Rightarrow> bool" where
  "isna None = True"
| "isna (Some _) = False"

text \<open>The non-missing cells of a column, in order (what \<open>dropna\<close> keeps).\<close>

fun somes :: "'a option list \<Rightarrow> 'a list" where
  "somes [] = []"
| "somes (None # xs) = somes xs"
| "somes (Some x # xs) = x # somes xs"

text \<open>
  Python's \<open>max(d, key=d.get)\<close> over a dictionary in insertion order, and the first-maximum
  scan of \<open>Series.idxmax\<close>: the first item is the candidate, a later item replaces it
  only when its key value is strictly greater. On nothing, both raise \<open>ValueError\<close>.
\<close>

fun max_from :: "('v \<Rightarrow> 'v \<Rightarrow> bool) \<Rightarrow> ('k \<times> 'v) \<Rightarrow> ('k \<times> 'v) list \<Rightarrow> ('k \<times> 'v)" where
  "max_from gt best [] = best"
| "max_from gt best (x # xs) = max_from gt (if gt (snd x) (snd best) then x else best) xs"

definition py_max :: "('v \<Rightarrow> 'v \<Rightarrow> bool) \<Rightarrow> ('k \<times> 'v) list \<Rightarrow> error + ('k \<times> 'v)" where
  "py_max gt d = (case d of [] \<Rightarrow> Inl ValueError | x # xs \<Rightarrow> Inr (max_from gt x xs))"

section \<open>Column selection (lines 39, 53 and 100)\<close>

text \<open>\<open>df.select_dtypes(include=np.number)\<close>: integer and float columns, not booleans.\<close>

fun numeric_cols :: "table \<Rightarrow> (string \<times> pyfloat list) list" where
  "numeric_cols [] = []"
| "numeric_cols ((n, NumCol xs) # df) = (n, xs) # numeric_cols df"
| "numeric_cols (_ # df) = numeric_cols df"

text \<open>\<open>df.select_dtypes(include='object')\<close>.\<close>

fun categorical_cols :: "table \<Rightarrow> (string \<times> string option list) list" where
  "categorical_cols [] = []"
| "categorical_cols ((n, ObjCol xs) # df) = (n, xs) # categorical_cols df"
| "categorical_cols (_ # df) = categorical_cols df"

text \<open>
  \<open>df.select_dtypes(include=['datetime', 'object'])\<close>: the text columns (\<open>Inl\<close>, their
  cells) and the datetime columns (\<open>Inr\<close>, their timestamps).
\<close>

fun datetime_cols :: "table \<Rightarrow> (string \<times> (string option list + int option list)) list" where
  "datetime_cols [] = []"
| "datetime_cols ((n, ObjCol xs) # df) = (n, Inl xs) # datetime_cols df"
| "datetime_cols ((n, DtCol ds) # df) = (n, Inr ds) # datetime_cols df"
| "datetime_cols (_ # df) = datetime_cols df"

section \<open>What is taken from pandas\<close>

text \<open>A frame of floats with row labels: each column with its label and its labelled cells.\<close>

type_synonym matrix = "(string \<times> (string \<times> pyfloat) list) list"

text \<open>
  \<^item> \<open>df_corr\<close> is \<open>DataFrame.corr()\<close> on the numeric columns: the float64 matrix that
    pandas computes.
  \<^item> \<open>tie_rank\<close> is the order that \<open>sort_values\<close> gives to equal values: its default
    sorting routine is not stable, so of two equal values the one whose key has the
    smaller rank comes first (keys of equal rank keep their order).
  \<^item> \<open>pd_to_datetime\<close> is \<open>pd.to_datetime\<close> on the cells of a text column, as it answers
    during the run: \<open>None\<close> where it raises, else the timestamps (NaT for a missing
    cell). pandas converts a column as a whole (it infers one format from the first
    present value) and reads the clock for cells such as \<open>now\<close> and \<open>today\<close>.
\<close>

record pandas =
  df_corr :: "(string \<times> pyfloat list) list \<Rightarrow> matrix"
  tie_rank :: "string \<times> string \<Rightarrow> nat"
  pd_to_datetime :: "string option list \<Rightarrow> int option list option"

section \<open>The lines before the insights (lines 39 to 61)\<close>

text \<open>Lines 41 and 48: \<open>corr\<close> is bound only under \<open>if numeric_cols\<close>.\<close>

definition corr_var :: "pandas \<Rightarrow> table \<Rightarrow> matrix option" where
  "corr_var lib df =
     (if numeric_cols df \<noteq> [] then Some (df_corr lib (numeric_cols df)) else None)"

text \<open>
  Lines 54 to 61, with the select box at its default, the first text column \<open>col\<close>:
  \<open>df[col].value_counts().reset_index()\<close> has the columns \<open>col\<close> and \<open>count\<close>, and
  \<open>px.bar(..., x='index', y='count')\<close> raises \<open>ValueError\<close> unless there is a column
  \<open>index\<close>, that is unless \<open>col\<close> is itself labelled \<open>index\<close> (pandas 2 names the columns so).
\<close>

definition category_counts :: "table \<Rightarrow> error + unit" where
  "category_counts df =
     (case categorical_cols df of
        [] \<Rightarrow> Inr ()
      | (col, xs) # rest \<Rightarrow> if col = ''index'' then Inr () else Inl ValueError)"

section \<open>Insight 1 (lines 68 to 71)\<close>

definition abs_df :: "matrix \<Rightarrow> matrix" where
  "abs_df m = map (\<lambda>(c, col). (c, map (\<lambda>(r, v). (r, map_option abs v)) col)) m"

text \<open>\<open>DataFrame.unstack()\<close>: one series, column by column, keyed by (column label, row label).\<close>

definition unstack :: "matrix \<Rightarrow> ((string \<times> string) \<times> pyfloat) list" where
  "unstack m = concat (map (\<lambda>(c, col). map (\<lambda>(r, v). ((c, r), v)) col) m)"

text \<open>
  \<open>sort_values(ascending=False)\<close>: descending, NaN last; among equal values, by the rank
  of the key.
\<close>

definition sort_values_desc :: "('k \<Rightarrow> nat) \<Rightarrow> ('k \<times> pyfloat) list \<Rightarrow> ('k \<times> pyfloat) list" where
  "sort_values_desc rank s =
     sort_key (\<lambda>(k, v). - the v) (sort_key (\<lambda>(k, v). rank k) (filter (\<lambda>(k, v). \<not> isna v) s))
       @ filter (\<lambda>(k, v). isna v) s"

text \<open>\<open>cor_pairs[cor_pairs < 1]\<close>: NaN is not below 1.\<close>

fun below1 :: "('k \<times> pyfloat) list \<Rightarrow> ('k \<times> real) list" where
  "below1 [] = []"
| "below1 ((k, Some v) # s) = (if v < 1 then (k, v) # below1 s else below1 s)"
| "below1 ((k, None) # s) = below1 s"

definition insight1 ::
  "(string \<times> string \<Rightarrow> nat) \<Rightarrow> matrix option \<Rightarrow> error + (string \<times> string \<times> real)" where
  "insight1 rank corr =
     (case corr of
        None \<Rightarrow> Inl NameError
      | Some m \<Rightarrow>
          (case py_max (\<lambda>a b. a > b) (below1 (sort_values_desc rank (unstack (abs_df m)))) of
             Inl e \<Rightarrow> Inl e
           | Inr ((a, b), v) \<Rightarrow> Inr (a, b, v)))"

section \<open>Insight 2 (lines 74 to 77)\<close>

fun isnull_sum :: "column \<Rightarrow> nat" where
  "isnull_sum (NumCol xs) = length (filter isna xs)"
| "isnull_sum (ObjCol xs) = length (filter isna xs)"
| "isnull_sum (DtCol xs) = length (filter isna xs)"
| "isnull_sum (BoolCol xs) = 0"

text \<open>
  \<open>df.isnull().sum()\<close> is the series of counts; its \<open>max()\<close> and \<open>idxmax()\<close> are the value
  and the label of the first maximum. On a frame without columns \<open>max()\<close> is NaN and the
  test \<open>> 0\<close> is false.
\<close>

definition insight2 :: "table \<Rightarrow> (string \<times> nat) option" where
  "insight2 df =
     (case py_max (\<lambda>a b. a > b) (map (\<lambda>(n, c). (n, isnull_sum c)) df) of
        Inl e \<Rightarrow> None
      | Inr (miss_col, k) \<Rightarrow> if k > 0 then Some (miss_col, k) else None)"

section \<open>Insight 3 (lines 81 to 85)\<close>

text \<open>
  \<open>value_counts(normalize=True).max()\<close>: the largest count of a distinct present value
  over the number of present values; NaN when nothing is present.
\<close>

definition dominance :: "string option list \<Rightarrow> pyfloat" where
  "dominance xs =
     (let vs = somes xs in
      if vs = [] then None
      else Some (real (Max (set (map (count_list vs) vs))) / real (length vs)))"

definition insight3 :: "table \<Rightarrow> error + (string \<times> pyfloat) option" where
  "insight3 df =
     (if categorical_cols df \<noteq> [] then
        (case py_max fgt (map (\<lambda>(n, xs). (n, dominance xs)) (categorical_cols df)) of
           Inl e \<Rightarrow> Inl e
         | Inr (most_imbalanced, f) \<Rightarrow> Inr (Some (most_imbalanced, fmul f (Some 100))))
      else Inr None)"

section \<open>Insight 4 (lines 89 to 97)\<close>

text \<open>
  \<open>Series.quantile(q)\<close> with its default linear interpolation: over the sorted present
  values \<open>s\<close> of length \<open>n\<close>, the position is \<open>h = (n - 1) * q\<close> and the result lies between
  \<open>s[floor h]\<close> and its successor, at the fraction \<open>h - floor h\<close>. NaN when nothing is present.
\<close>

definition quantile :: "real \<Rightarrow> pyfloat list \<Rightarrow> pyfloat" where
  "quantile q col =
     (let s = sort (somes col); n = length s in
      if n = 0 then None
      else
        let h = real (n - 1) * q;
            lo = nat \<lfloor>h\<rfloor>;
            hi = min (lo + 1) (n - 1)
        in Some (s ! lo + (h - real lo) * (s ! hi - s ! lo)))"

definition outliers :: "pyfloat list \<Rightarrow> nat" where
  "outliers col =
     (let Q1 = quantile (1 / 4) col;
          Q3 = quantile (3 / 4) col;
          IQR = fsub Q3 Q1
      in length (filter (\<lambda>x. flt x (fsub Q1 (fmul (Some (3 / 2)) IQR))
                            \<or> fgt x (fadd Q3 (fmul (Some (3 / 2)) IQR))) col))"

definition insight4 :: "table \<Rightarrow> error + (string \<times> nat)" where
  "insight4 df = py_max (\<lambda>a b. a > b) (map (\<lambda>(n, xs). (n, outliers xs)) (numeric_cols df))"

section \<open>Insight 5 (lines 100 to 114)\<close>

text \<open>The rows in which both cells are present.\<close>

fun both :: "'a option \<times> 'b option \<Rightarrow> ('a \<times> 'b) option" where
  "both (Some a, Some b) = Some (a, b)"
| "both _ = None"

definition dropna2 :: "'a option list \<Rightarrow> 'b option list \<Rightarrow> ('a \<times> 'b) list" where
  "dropna2 xs ys = List.map_filter both (zip xs ys)"

definition mean :: "real list \<Rightarrow> real" where
  "mean xs = sum_list xs / real (length xs)"

text \<open>
  \<open>pd.to_datetime\<close> on a column of \<open>datetime_cols\<close>: a text column is converted by pandas,
  or the call raises; a datetime column comes back as it is.
\<close>

fun to_datetime ::
  "(string option list \<Rightarrow> int option list option)
     \<Rightarrow> string option list + int option list \<Rightarrow> error + int option list" where
  "to_datetime conv (Inl xs) = (case conv xs of None \<Rightarrow> Inl ValueError | Some ds \<Rightarrow> Inr ds)"
| "to_datetime conv (Inr ds) = Inr ds"

text \<open>
  The loop of line 101: the first column whose conversion does not raise ends the loop
  (\<open>break\<close>); a column whose conversion raises is passed over (\<open>except Exception: continue\<close>).
\<close>

fun time_loop ::
  "(string option list \<Rightarrow> int option list option)
     \<Rightarrow> (string \<times> (string option list + int option list)) list
     \<Rightarrow> (string \<times> int option list) option" where
  "time_loop conv [] = None"
| "time_loop conv ((col, c) # rest) =
     (case to_datetime conv c of
        Inr ds \<Rightarrow> Some (col, ds)
      | Inl e \<Rightarrow> time_loop conv rest)"

text \<open>The assignment \<open>df[col] = ...\<close> of line 103: the column keeps its place and its label.\<close>

definition set_col :: "string \<Rightarrow> column \<Rightarrow> table \<Rightarrow> table" where
  "set_col col c df = map (\<lambda>(n, old). if n = col then (n, c) else (n, old)) df"

text \<open>\<open>groupby(time_col)[y].mean().reset_index()\<close>: one row per distinct key, keys ascending.\<close>

definition groupby_mean :: "(int \<times> real) list \<Rightarrow> (int \<times> real) list" where
  "groupby_mean rows =
     map (\<lambda>d. (d, mean (map snd (filter (\<lambda>r. fst r = d) rows)))) (sort (remdups (map fst rows)))"

definition insight5 ::
  "(string option list \<Rightarrow> int option list option) \<Rightarrow> table
     \<Rightarrow> (string \<times> string \<times> (int \<times> real) list) option \<times> table" where
  "insight5 conv df =
     (case time_loop conv (datetime_cols df) of
        None \<Rightarrow> (None, df)
      | Some (time_col, ds) \<Rightarrow>
          (let df' = set_col time_col (DtCol ds) df in
           case numeric_cols df of
             [] \<Rightarrow> (None, df')
           | (y, vs) # _ \<Rightarrow> (Some (time_col, y, groupby_mean (dropna2 ds vs)), df')))"

section \<open>A run (lines 39 to 114)\<close>

text \<open>
  What a run writes, when no statement raises. Insights 1 and 4 write unconditionally;
  insights 2, 3 and 5 write under their guards, \<open>None\<close> standing for nothing written.
\<close>

record report =
  top_pair :: "string \<times> string \<times> real"
  most_missing :: "(string \<times> nat) option"
  most_imbalanced :: "(string \<times> pyfloat) option"
  most_outliers :: "string \<times> nat"
  time_trend :: "(string \<times> string \<times> (int \<times> real) list) option"

text \<open>
  The run: an exception outside the \<open>try\<close> of insight 5 ends the script where it is
  raised. The second component is the frame \<open>df\<close> as the run leaves it.
\<close>

definition compute :: "pandas \<Rightarrow> table \<Rightarrow> (error + report) \<times> table" where
  "compute lib df =
     (case category_counts df of
        Inl e \<Rightarrow> (Inl e, df)
      | Inr u \<Rightarrow>
          (case insight1 (tie_rank lib) (corr_var lib df) of
             Inl e \<Rightarrow> (Inl e, df)
           | Inr r1 \<Rightarrow>
               (let r2 = insight2 df in
                case insight3 df of
                  Inl e \<Rightarrow> (Inl e, df)
                | Inr r3 \<Rightarrow>
                    (case insight4 df of
                       Inl e \<Rightarrow> (Inl e, df)
                     | Inr r4 \<Rightarrow>
                         (let (r5, df') = insight5 (pd_to_datetime lib) df in
                          (Inr \<lparr>top_pair = r1, most_missing = r2, most_imbalanced = r3,
                                most_outliers = r4, time_trend = r5\<rparr>, df'))))))"

section \<open>An instance of pandas for the worked examples\<close>

text \<open>
  The closed statements below need pandas at concrete tables. For them, the correlation
  matrix is Pearson's coefficient in exact arithmetic; it is used only on columns of small
  integers, where every intermediate value of the float64 computation is exact.
\<close>

definition clip1 :: "real \<Rightarrow> real" where
  "clip1 v = (if v > 1 then 1 else if v < -1 then -1 else v)"

text \<open>
  Pearson's coefficient as \<open>DataFrame.corr()\<close> takes it with its defaults: over the rows
  where both columns are present (at least one such row), the quotient clipped to
  \<open>[-1, 1]\<close>, and NaN when the divisor is zero.
\<close>

definition pearson :: "pyfloat list \<Rightarrow> pyfloat list \<Rightarrow> pyfloat" where
  "pearson xs ys =
     (let ps = dropna2 xs ys in
      if ps = [] then None
      else
        let mx = mean (map fst ps);
            my = mean (map snd ps);
            ssx = sum_list (map (\<lambda>(a, b). (a - mx) * (a - mx)) ps);
            ssy = sum_list (map (\<lambda>(a, b). (b - my) * (b - my)) ps);
            cov = sum_list (map (\<lambda>(a, b). (a - mx) * (b - my)) ps);
            divisor = sqrt (ssx * ssy)
        in if divisor \<noteq> 0 then Some (clip1 (cov / divisor)) else None)"

definition corr_df :: "(string \<times> pyfloat list) list \<Rightarrow> matrix" where
  "corr_df cols = map (\<lambda>(c, ys). (c, map (\<lambda>(r, xs). (r, pearson xs ys)) cols)) cols"

text \<open>
  What \<open>pd.to_datetime\<close> answers on the text columns of the worked examples when the clock
  reads \<open>now\<close>: the two ISO dates, alone and in one column; the date \<open>01/02/2020\<close> alone
  (month first, the second of January); a column with the single present cell \<open>now\<close>. On
  the column that mixes the two formats it raises, and so it does on every column with
  a cell that is no date. No other column occurs in the examples.
\<close>

definition example_to_datetime :: "int \<Rightarrow> string option list \<Rightarrow> int option list option" where
  "example_to_datetime now =
     map_of
       [([Some ''2020-01-01'', Some ''2020-01-01'', Some ''2020-01-02''],
         [Some 1577836800000000000, Some 1577836800000000000, Some 1577923200000000000]),
        ([Some ''2020-01-01''], [Some 1577836800000000000]),
        ([Some ''2020-01-02''], [Some 1577923200000000000]),
        ([Some ''01/02/2020''], [Some 1577923200000000000]),
        ([Some ''now'', None, None], [Some now, None, None])]"

text \<open>In the instance equal values keep their order; no statement names one of two tied pairs.\<close>

definition pandas_at :: "int \<Rightarrow> pandas" where
  "pandas_at now =
     \<lparr>df_corr = corr_df, tie_rank = (\<lambda>k. 0), pd_to_datetime = example_to_datetime now\<rparr>"

section \<open>Notions of the specification, used in the statements\<close>

text \<open>
  The definitions of this section are not read off the script: they put the wording of the
  specification into HOL (the first maximum, the missing cells of a column, the top relative
  frequency, the time candidate and the numeric cells of a column, the rows kept, the
  entries of a matrix and the off-diagonal correlations), so that what the script computes can be compared with
  them.

  Position \<open>i\<close> holds the maximum of \<open>f\<close> over the list and is the first position that
  does: the maximum with the first item in declaration order among ties.
\<close>

definition first_max_at :: "('a \<Rightarrow> 'o::linorder) \<Rightarrow> 'a list \<Rightarrow> nat \<Rightarrow> bool" where
  "first_max_at f xs i \<longleftrightarrow>
     i < length xs \<and> (\<forall>j<length xs. f (xs ! j) \<le> f (xs ! i)) \<and> (\<forall>j<i. f (xs ! j) < f (xs ! i))"

text \<open>
  The missing cells of a column, as the set of their row numbers; the missing count of the
  column is the size of this set. A boolean column has no missing cell.
\<close>

fun missing_cells :: "column \<Rightarrow> nat set" where
  "missing_cells (NumCol xs) = {i. i < length xs \<and> xs ! i = None}"
| "missing_cells (ObjCol xs) = {i. i < length xs \<and> xs ! i = None}"
| "missing_cells (DtCol xs) = {i. i < length xs \<and> xs ! i = None}"
| "missing_cells (BoolCol xs) = {}"

text \<open>
  The relative frequency of the most frequent distinct value of a text column: over the
  distinct present values, the largest quotient of a value's count by the number of
  present values.
\<close>

definition top_frequency :: "string option list \<Rightarrow> real" where
  "top_frequency xs =
     Max ((\<lambda>v. real (count_list (somes xs) v) / real (length (somes xs))) ` set (somes xs))"

text \<open>
  The timestamps a column offers to the time-trend insight: those of a datetime column,
  those which the conversion gives for a text column, and none (\<open>None\<close>) for a text
  column on which the conversion raises and for every other column. The numeric cells of a
  column: those of a numeric column, none for any other.
\<close>

fun time_candidate ::
  "(string option list \<Rightarrow> int option list option) \<Rightarrow> column \<Rightarrow> int option list option" where
  "time_candidate conv (ObjCol xs) = conv xs"
| "time_candidate conv (DtCol ds) = Some ds"
| "time_candidate conv (NumCol xs) = None"
| "time_candidate conv (BoolCol xs) = None"

fun numeric_cells :: "column \<Rightarrow> pyfloat list option" where
  "numeric_cells (NumCol xs) = Some xs"
| "numeric_cells (ObjCol xs) = None"
| "numeric_cells (DtCol ds) = None"
| "numeric_cells (BoolCol xs) = None"

text \<open>The timestamps of a column as \<open>datetime_cols\<close> hands it to the loop.\<close>

fun converted ::
  "(string option list \<Rightarrow> int option list option)
     \<Rightarrow> string option list + int option list \<Rightarrow> int option list option" where
  "converted conv (Inl xs) = conv xs"
| "converted conv (Inr ds) = Some ds"

text \<open>The rows of two columns in which neither cell is missing, in their order.\<close>

definition kept_rows :: "'a option list \<Rightarrow> 'b option list \<Rightarrow> ('a \<times> 'b) list" where
  "kept_rows ds vs =
     map (\<lambda>(a, b). (the a, the b)) (filter (\<lambda>(a, b). a \<noteq> None \<and> b \<noteq> None) (zip ds vs))"

text \<open>The entries of a matrix: the cells with their column label and their row label.\<close>

definition entries :: "matrix \<Rightarrow> ((string \<times> string) \<times> pyfloat) set" where
  "entries m = {((c, r), v). \<exists>col. (c, col) \<in> set m \<and> (r, v) \<in> set col}"

text \<open>
  The off-diagonal absolute entries of the correlation matrix of the given columns: for
  every ordered pair of columns with different labels, the absolute value of their
  coefficient, where it is defined.
\<close>

definition offdiag_abs :: "(string \<times> pyfloat list) list \<Rightarrow> real list" where
  "offdiag_abs cols =
     somes (map (\<lambda>((r, xs), (c, ys)). map_option abs (pearson xs ys))
              (filter (\<lambda>((r, xs), (c, ys)). r \<noteq> c) (List.product cols cols)))"

section \<open>The first maximum\<close>

lemma max_from_snoc:
  "max_from gt b (xs @ [y]) = (let m = max_from gt b xs in if gt (snd y) (snd m) then y else m)"
  by (induction xs arbitrary: b) (simp_all add: Let_def)

lemma first_max_at_snoc_new:
  assumes "first_max_at f zs i" and "f (zs ! i) < f y"
  shows "first_max_at f (zs @ [y]) (length zs)"
  unfolding first_max_at_def
proof (intro conjI allI impI)
  show "length zs < length (zs @ [y])" by simp
next
  fix j assume "j < length (zs @ [y])"
  then have "j < length zs \<or> j = length zs" by auto
  then show "f ((zs @ [y]) ! j) \<le> f ((zs @ [y]) ! length zs)"
  proof
    assume j: "j < length zs"
    then have "f (zs ! j) \<le> f (zs ! i)" using assms(1) by (simp add: first_max_at_def)
    then show ?thesis using assms(2) j by (simp add: nth_append)
  next
    assume "j = length zs"
    then show ?thesis by simp
  qed
next
  fix j assume j: "j < length zs"
  then have "f (zs ! j) \<le> f (zs ! i)" using assms(1) by (simp add: first_max_at_def)
  then show "f ((zs @ [y]) ! j) < f ((zs @ [y]) ! length zs)"
    using assms(2) j by (simp add: nth_append)
qed

lemma first_max_at_snoc_old:
  assumes "first_max_at f zs i" and "\<not> f (zs ! i) < f y"
  shows "first_max_at f (zs @ [y]) i"
  unfolding first_max_at_def
proof (intro conjI allI impI)
  show "i < length (zs @ [y])" using assms(1) by (simp add: first_max_at_def)
next
  have il: "i < length zs" using assms(1) by (simp add: first_max_at_def)
  fix j assume "j < length (zs @ [y])"
  then have "j < length zs \<or> j = length zs" by auto
  then show "f ((zs @ [y]) ! j) \<le> f ((zs @ [y]) ! i)"
  proof
    assume j: "j < length zs"
    then have "f (zs ! j) \<le> f (zs ! i)" using assms(1) by (simp add: first_max_at_def)
    then show ?thesis using j il by (simp add: nth_append)
  next
    assume "j = length zs"
    then show ?thesis using assms(2) il by (simp add: nth_append)
  qed
next
  have il: "i < length zs" using assms(1) by (simp add: first_max_at_def)
  fix j assume j: "j < i"
  then have "f (zs ! j) < f (zs ! i)" using assms(1) by (simp add: first_max_at_def)
  then show "f ((zs @ [y]) ! j) < f ((zs @ [y]) ! i)"
    using j il by (simp add: nth_append)
qed

lemma max_from_first_max:
  fixes f :: "('k \<times> 'v) \<Rightarrow> 'o::linorder"
  assumes "\<And>a c. a \<in> set (b # xs) \<Longrightarrow> c \<in> set (b # xs) \<Longrightarrow> gt (snd a) (snd c) = (f c < f a)"
  shows "\<exists>i. first_max_at f (b # xs) i \<and> max_from gt b xs = (b # xs) ! i"
  using assms
proof (induction xs rule: rev_induct)
  case Nil
  have "first_max_at f [b] 0" by (simp add: first_max_at_def)
  then show ?case by auto
next
  case (snoc y xs)
  define zs where "zs = b # xs"
  have ext: "b # xs @ [y] = zs @ [y]" by (simp add: zs_def)
  have "\<And>a c. a \<in> set (b # xs) \<Longrightarrow> c \<in> set (b # xs) \<Longrightarrow> gt (snd a) (snd c) = (f c < f a)"
    using snoc.prems by auto
  from snoc.IH[OF this] obtain i where i: "first_max_at f zs i"
    and m: "max_from gt b xs = zs ! i" unfolding zs_def by blast
  have il: "i < length zs" using i by (simp add: first_max_at_def)
  then have "zs ! i \<in> set zs" by simp
  then have mem: "zs ! i \<in> set (b # xs @ [y])" unfolding ext by simp
  have gy: "gt (snd y) (snd (zs ! i)) = (f (zs ! i) < f y)"
    using snoc.prems[of y "zs ! i"] mem by simp
  show ?case
  proof (cases "f (zs ! i) < f y")
    case True
    have "max_from gt b (xs @ [y]) = (zs @ [y]) ! length zs"
      using True gy m by (simp add: max_from_snoc Let_def)
    with first_max_at_snoc_new[OF i True] show ?thesis unfolding ext by blast
  next
    case False
    have "max_from gt b (xs @ [y]) = (zs @ [y]) ! i"
      using False gy m il by (simp add: max_from_snoc Let_def nth_append)
    with first_max_at_snoc_old[OF i False] show ?thesis unfolding ext by blast
  qed
qed

lemma py_max_first_max:
  fixes f :: "('k \<times> 'v) \<Rightarrow> 'o::linorder"
  assumes "\<And>a c. a \<in> set d \<Longrightarrow> c \<in> set d \<Longrightarrow> gt (snd a) (snd c) = (f c < f a)"
    and "d \<noteq> []"
  shows "\<exists>i. first_max_at f d i \<and> py_max gt d = Inr (d ! i)"
proof -
  from \<open>d \<noteq> []\<close> obtain b xs where d: "d = b # xs" by (cases d) auto
  from max_from_first_max[of b xs gt f] assms(1) d
  obtain i where "first_max_at f (b # xs) i" "max_from gt b xs = (b # xs) ! i" by blast
  then show ?thesis unfolding d by (auto simp: py_max_def)
qed

lemma first_max_at_map: "first_max_at f (map g xs) i = first_max_at (\<lambda>x. f (g x)) xs i"
  by (auto simp: first_max_at_def)

lemma first_max_at_unique:
  assumes "first_max_at f xs i" and "first_max_at f xs j"
  shows "i = j"
proof (rule ccontr)
  assume "i \<noteq> j"
  then consider "i < j" | "j < i" by linarith
  then show False
  proof cases
    case 1
    then have "f (xs ! i) < f (xs ! j)" using assms(2) by (simp add: first_max_at_def)
    moreover have "f (xs ! j) \<le> f (xs ! i)" using assms by (simp add: first_max_at_def)
    ultimately show False by simp
  next
    case 2
    then have "f (xs ! j) < f (xs ! i)" using assms(1) by (simp add: first_max_at_def)
    moreover have "f (xs ! i) \<le> f (xs ! j)" using assms by (simp add: first_max_at_def)
    ultimately show False by simp
  qed
qed

lemma py_max_linorder:
  fixes d :: "('k \<times> 'v::linorder) list"
  assumes "d \<noteq> []"
  shows "\<exists>i. first_max_at snd d i \<and> py_max (\<lambda>a b. a > b) d = Inr (d ! i)"
  using py_max_first_max[of d "\<lambda>a b. a > b" snd] assms by simp

section \<open>Runs that stop with an error\<close>

text \<open>
  C1: for a table without numeric columns the outlier insight is to give "not applicable"
  and raise nothing. On the table with the single boolean column \<open>flag\<close>, the code of
  insight 4 takes \<open>max\<close> of an empty dictionary and raises \<open>ValueError\<close>; the run as a
  whole has by then already stopped at insight 1, where \<open>corr\<close> is unbound.
\<close>

theorem insight4_without_numeric_cols:
  "insight4 [(''flag'', BoolCol [True, False])] = Inl ValueError
   \<and> fst (compute (pandas_at 0) [(''flag'', BoolCol [True, False])]) = Inl NameError"
  by (simp add: insight4_def py_max_def compute_def category_counts_def insight1_def corr_var_def)

text \<open>
  C2: a failure in one insight is not to stop the other four. On the table with the single
  numeric column \<open>x = [1, NaN, 3]\<close> the correlation matrix is the single entry 1, nothing
  is below 1, \<open>idxmax\<close> raises \<open>ValueError\<close> and the run stops there, although insights 2
  and 4 have something to report on this table.
\<close>

theorem insight1_error_stops_the_run:
  "fst (compute (pandas_at 0) [(''x'', NumCol [Some 1, None, Some 3])]) = Inl ValueError
   \<and> insight2 [(''x'', NumCol [Some 1, None, Some 3])] = Some (''x'', 1)
   \<and> insight4 [(''x'', NumCol [Some 1, None, Some 3])] = Inr (''x'', 0)"
proof -
  have p: "pearson [Some 1, None, Some 3] [Some 1, None, Some 3] = Some 1"
    by (simp add: pearson_def dropna2_def List.map_filter_def mean_def clip1_def Let_def)
  have "insight1 (tie_rank (pandas_at 0))
          (corr_var (pandas_at 0) [(''x'', NumCol [Some 1, None, Some 3])]) = Inl ValueError"
    by (simp add: insight1_def corr_var_def pandas_at_def corr_df_def p abs_df_def unstack_def
        sort_values_desc_def py_max_def)
  then have "fst (compute (pandas_at 0) [(''x'', NumCol [Some 1, None, Some 3])]) = Inl ValueError"
    by (simp add: compute_def category_counts_def)
  moreover have "insight2 [(''x'', NumCol [Some 1, None, Some 3])] = Some (''x'', 1)"
    by (simp add: insight2_def py_max_def)
  moreover have "insight4 [(''x'', NumCol [Some 1, None, Some 3])] = Inr (''x'', 0)"
    by (simp add: insight4_def py_max_def outliers_def quantile_def)
  ultimately show ?thesis by blast
qed

section \<open>Insight 2: the column with most missing data\<close>

lemma insight2_empty: "insight2 [] = None"
  by (simp add: insight2_def py_max_def)

lemma insight2_first_max:
  assumes "df \<noteq> []"
  shows "\<exists>i. first_max_at (\<lambda>x. isnull_sum (snd x)) df i \<and>
     insight2 df = (if 0 < isnull_sum (snd (df ! i))
                    then Some (fst (df ! i), isnull_sum (snd (df ! i))) else None)"
proof -
  let ?g = "\<lambda>(n, c). (n, isnull_sum c)"
  have "map ?g df \<noteq> []" using assms by simp
  from py_max_linorder[OF this] obtain i where
    fm: "first_max_at snd (map ?g df) i" and
    pm: "py_max (\<lambda>a b. a > b) (map ?g df) = Inr (map ?g df ! i)" by blast
  have il: "i < length df" using fm by (simp add: first_max_at_def)
  have "first_max_at (\<lambda>x. isnull_sum (snd x)) df i"
    using fm by (simp add: first_max_at_map case_prod_unfold)
  moreover have "map ?g df ! i = (fst (df ! i), isnull_sum (snd (df ! i)))"
    using il by (simp add: case_prod_unfold)
  ultimately show ?thesis using pm by (auto simp: insight2_def)
qed

lemma isna_iff: "isna x \<longleftrightarrow> x = None"
  by (cases x) simp_all

lemma count_isna: "length (filter isna xs) = card {i. i < length xs \<and> xs ! i = None}"
  by (simp add: length_filter_conv_card isna_iff)

lemma isnull_sum_missing_cells: "isnull_sum c = card (missing_cells c)"
  by (cases c) (simp_all add: count_isna)

lemma missing_cells_finite: "finite (missing_cells c)"
  by (cases c) simp_all

lemma missing_cells_empty: "missing_cells c = {} \<longleftrightarrow> isnull_sum c = 0"
  by (simp add: isnull_sum_missing_cells missing_cells_finite)

text \<open>
  C5: the missing-data insight is populated exactly when some column has a missing cell;
  it then names the column with the largest number of missing cells, the first in
  declaration order among ties, with that number. When one column has exactly one missing
  cell and no other column has any, it names that column with count 1.
\<close>

theorem insight2_most_missing:
  "(insight2 df \<noteq> None \<longleftrightarrow> (\<exists>x\<in>set df. missing_cells (snd x) \<noteq> {}))
   \<and> (\<forall>c k. insight2 df = Some (c, k) \<longrightarrow>
         (\<exists>i. first_max_at (\<lambda>x. card (missing_cells (snd x))) df i \<and> fst (df ! i) = c
              \<and> card (missing_cells (snd (df ! i))) = k))
   \<and> (\<forall>i<length df. card (missing_cells (snd (df ! i))) = 1
         \<and> (\<forall>j<length df. j \<noteq> i \<longrightarrow> missing_cells (snd (df ! j)) = {})
         \<longrightarrow> insight2 df = Some (fst (df ! i), 1))"
proof (cases "df = []")
  case True
  then show ?thesis by (simp add: insight2_empty)
next
  case False
  let ?n = "\<lambda>x :: string \<times> column. card (missing_cells (snd x))"
  from insight2_first_max[OF False] obtain m where
    fm: "first_max_at ?n df m" and
    eq: "insight2 df = (if 0 < ?n (df ! m) then Some (fst (df ! m), ?n (df ! m)) else None)"
    unfolding isnull_sum_missing_cells by blast
  have ml: "m < length df" and mx: "\<And>j. j < length df \<Longrightarrow> ?n (df ! j) \<le> ?n (df ! m)"
    using fm by (simp_all add: first_max_at_def)
  have pos: "\<And>x. 0 < ?n x \<longleftrightarrow> missing_cells (snd x) \<noteq> {}"
    by (simp add: card_gt_0_iff missing_cells_finite)
  have a: "insight2 df \<noteq> None \<longleftrightarrow> (\<exists>x\<in>set df. missing_cells (snd x) \<noteq> {})"
  proof
    assume "insight2 df \<noteq> None"
    then have "0 < ?n (df ! m)" using eq by (simp split: if_splits)
    then have "missing_cells (snd (df ! m)) \<noteq> {}" using pos by blast
    then show "\<exists>x\<in>set df. missing_cells (snd x) \<noteq> {}" using ml nth_mem by blast
  next
    assume "\<exists>x\<in>set df. missing_cells (snd x) \<noteq> {}"
    then obtain j where j: "j < length df" "missing_cells (snd (df ! j)) \<noteq> {}"
      by (metis in_set_conv_nth)
    then have "0 < ?n (df ! j)" using pos by blast
    then have "0 < ?n (df ! m)" using mx[OF j(1)] by simp
    then show "insight2 df \<noteq> None" using eq by simp
  qed
  have b: "\<forall>c k. insight2 df = Some (c, k) \<longrightarrow>
         (\<exists>i. first_max_at ?n df i \<and> fst (df ! i) = c \<and> ?n (df ! i) = k)"
    using eq fm by (auto split: if_splits)
  have c: "\<forall>i<length df. ?n (df ! i) = 1
         \<and> (\<forall>j<length df. j \<noteq> i \<longrightarrow> missing_cells (snd (df ! j)) = {})
         \<longrightarrow> insight2 df = Some (fst (df ! i), 1)"
  proof (intro allI impI)
    fix i assume il: "i < length df"
      and h: "?n (df ! i) = 1
         \<and> (\<forall>j<length df. j \<noteq> i \<longrightarrow> missing_cells (snd (df ! j)) = {})"
    have "1 \<le> ?n (df ! m)" using mx[OF il] h by simp
    then have "missing_cells (snd (df ! m)) \<noteq> {}" by auto
    then have "m = i" using h ml by blast
    then show "insight2 df = Some (fst (df ! i), 1)" using eq h by simp
  qed
  from a b c show ?thesis by blast
qed

theorem insight2_most_missing_witness:
  "insight2 [(''p'', NumCol [Some 1, None, Some 3, Some 4, Some 5, Some 6]),
             (''q'', ObjCol [None, None, Some ''u'', None, None, None]),
             (''r'', BoolCol [True, False, True, True, False, True])] = Some (''q'', 5)
   \<and> insight2 [(''a'', NumCol [Some 1, Some 2]), (''b'', ObjCol [Some ''x'', None]),
                (''c'', BoolCol [True, False])] = Some (''b'', 1)"
proof -
  let ?T = "[(''p'', NumCol [Some 1, None, Some 3, Some 4, Some 5, Some 6]),
             (''q'', ObjCol [None, None, Some ''u'', None, None, None]),
             (''r'', BoolCol [True, False, True, True, False, True])]"
  let ?U = "[(''a'', NumCol [Some 1, Some 2]), (''b'', ObjCol [Some ''x'', None]),
             (''c'', BoolCol [True, False])]"
  let ?n = "\<lambda>x :: string \<times> column. card (missing_cells (snd x))"
  have n: "?n (?T ! 0) = 1" "?n (?T ! 1) = 5" "?n (?T ! 2) = 0"
    unfolding isnull_sum_missing_cells[symmetric] by simp_all
  have "missing_cells (snd (?T ! 1)) \<noteq> {}"
    unfolding missing_cells_empty by simp
  then have "\<exists>x\<in>set ?T. missing_cells (snd x) \<noteq> {}" by simp
  then have "insight2 ?T \<noteq> None" using insight2_most_missing[of ?T] by blast
  then obtain c k where ck: "insight2 ?T = Some (c, k)" by auto
  then obtain i where i: "first_max_at ?n ?T i" "fst (?T ! i) = c" "?n (?T ! i) = k"
    using insight2_most_missing[of ?T] by blast
  have "first_max_at ?n ?T 1"
    unfolding first_max_at_def using n by (simp add: All_less_Suc numeral_3_eq_3)
  with i(1) have "i = 1" by (rule first_max_at_unique)
  then have t: "insight2 ?T = Some (''q'', 5)" using ck i n by simp
  have h: "(1::nat) < length ?U \<and> ?n (?U ! 1) = 1
      \<and> (\<forall>j<length ?U. j \<noteq> 1 \<longrightarrow> missing_cells (snd (?U ! j)) = {})"
    unfolding missing_cells_empty isnull_sum_missing_cells[symmetric]
    by (simp add: All_less_Suc numeral_3_eq_3)
  have "\<forall>i<length ?U. ?n (?U ! i) = 1
         \<and> (\<forall>j<length ?U. j \<noteq> i \<longrightarrow> missing_cells (snd (?U ! j)) = {})
         \<longrightarrow> insight2 ?U = Some (fst (?U ! i), 1)"
    using insight2_most_missing[of ?U] by blast
  with h have "insight2 ?U = Some (fst (?U ! 1), 1)" by blast
  with t show ?thesis by simp
qed

section \<open>Insight 4: missing values and outliers\<close>














section \<open>Insight 3: the most imbalanced text column\<close>

lemma first_max_at_cong:
  assumes "\<And>x. x \<in> set xs \<Longrightarrow> f x = g x"
  shows "first_max_at f xs i = first_max_at g xs i"
proof (cases "i < length xs")
  case False
  then show ?thesis by (simp add: first_max_at_def)
next
  case True
  have e: "\<And>j. j < length xs \<Longrightarrow> f (xs ! j) = g (xs ! j)" using assms by simp
  have "(\<forall>j<length xs. f (xs ! j) \<le> f (xs ! i)) = (\<forall>j<length xs. g (xs ! j) \<le> g (xs ! i))"
    using e True by simp
  moreover have "(\<forall>j<i. f (xs ! j) < f (xs ! i)) = (\<forall>j<i. g (xs ! j) < g (xs ! i))"
    using e True by simp
  ultimately show ?thesis by (simp add: first_max_at_def)
qed

lemma dominance_top_frequency:
  assumes "somes xs \<noteq> []"
  shows "dominance xs = Some (top_frequency xs)"
proof -
  let ?vs = "somes xs"
  let ?f = "\<lambda>k::nat. real k / real (length ?vs)"
  have m: "mono ?f" by (rule monoI) (simp add: divide_right_mono)
  have ne: "count_list ?vs ` set ?vs \<noteq> {}" using assms by simp
  have "?f (Max (count_list ?vs ` set ?vs)) = Max (?f ` (count_list ?vs ` set ?vs))"
    using mono_Max_commute[OF m _ ne] by simp
  then have "real (Max (set (map (count_list ?vs) ?vs))) / real (length ?vs) = top_frequency xs"
    by (simp add: top_frequency_def image_image)
  then show ?thesis using assms by (simp add: dominance_def Let_def)
qed

lemma count_list_two:
  "v \<noteq> w \<Longrightarrow> count_list xs v + count_list xs w \<le> length xs"
  by (induction xs) auto

lemma top_frequency_80:
  assumes "v \<in> set (somes xs)" and "5 * count_list (somes xs) v = 4 * length (somes xs)"
  shows "top_frequency xs = 4 / 5"
proof -
  let ?vs = "somes xs"
  let ?n = "length ?vs"
  have n: "0 < ?n" using assms(1) by (cases ?vs) auto
  have v: "real (count_list ?vs v) / real ?n = 4 / 5"
  proof -
    have "5 * real (count_list ?vs v) = 4 * real ?n"
      using assms(2) by (metis of_nat_mult of_nat_numeral)
    then show ?thesis using n by (simp add: field_simps)
  qed
  have le: "\<And>w. w \<in> set ?vs \<Longrightarrow> real (count_list ?vs w) / real ?n \<le> 4 / 5"
  proof -
    fix w assume "w \<in> set ?vs"
    show "real (count_list ?vs w) / real ?n \<le> 4 / 5"
    proof (cases "w = v")
      case True
      then show ?thesis using v by simp
    next
      case False
      then have "count_list ?vs v + count_list ?vs w \<le> ?n" by (simp add: count_list_two)
      then have "5 * count_list ?vs w \<le> 4 * ?n" using assms(2) by linarith
      then have "5 * real (count_list ?vs w) \<le> 4 * real ?n"
        by (metis of_nat_le_iff of_nat_mult of_nat_numeral)
      then show ?thesis using n by (simp add: field_simps)
    qed
  qed
  show ?thesis unfolding top_frequency_def
  proof (rule Max_eqI)
    show "finite ((\<lambda>v. real (count_list ?vs v) / real ?n) ` set ?vs)" by simp
  next
    fix y assume "y \<in> (\<lambda>v. real (count_list ?vs v) / real ?n) ` set ?vs"
    then show "y \<le> 4 / 5" using le by auto
  next
    show "4 / 5 \<in> (\<lambda>v. real (count_list ?vs v) / real ?n) ` set ?vs"
      using assms(1) v by force
  qed
qed

lemma insight3_first_max:
  assumes "categorical_cols df \<noteq> []"
    and "\<forall>x\<in>set (categorical_cols df). somes (snd x) \<noteq> []"
  shows "\<exists>i. first_max_at (\<lambda>x. top_frequency (snd x)) (categorical_cols df) i
            \<and> insight3 df = Inr (Some (fst (categorical_cols df ! i),
                                        Some (top_frequency (snd (categorical_cols df ! i)) * 100)))"
proof -
  let ?cats = "categorical_cols df"
  let ?g = "\<lambda>(n, xs). (n, dominance xs)"
  let ?d = "map ?g ?cats"
  have dom: "\<And>x. x \<in> set ?cats \<Longrightarrow> dominance (snd x) = Some (top_frequency (snd x))"
    using assms(2) by (simp add: dominance_top_frequency)
  have gt: "\<And>a c. a \<in> set ?d \<Longrightarrow> c \<in> set ?d
      \<Longrightarrow> fgt (snd a) (snd c) = (the (snd c) < the (snd a))"
    using dom by (auto simp: case_prod_unfold)
  have "?d \<noteq> []" using assms(1) by simp
  from py_max_first_max[of ?d fgt "\<lambda>x. the (snd x)", OF gt this] obtain i where
    fm: "first_max_at (\<lambda>x. the (snd x)) ?d i" and pm: "py_max fgt ?d = Inr (?d ! i)"
    by blast
  have il: "i < length ?cats" using fm by (simp add: first_max_at_def)
  have "first_max_at (\<lambda>x. the (dominance (snd x))) ?cats i"
    using fm by (simp add: first_max_at_map case_prod_unfold)
  then have f: "first_max_at (\<lambda>x. top_frequency (snd x)) ?cats i"
    using first_max_at_cong[of ?cats "\<lambda>x. the (dominance (snd x))" "\<lambda>x. top_frequency (snd x)" i] dom
    by simp
  have "?d ! i = (fst (?cats ! i), Some (top_frequency (snd (?cats ! i))))"
    using il dom[of "?cats ! i"] by (simp add: case_prod_unfold)
  with pm have "insight3 df = Inr (Some (fst (?cats ! i),
                                        Some (top_frequency (snd (?cats ! i)) * 100)))"
    using assms(1) by (simp add: insight3_def)
  with f show ?thesis by blast
qed

text \<open>
  C6: when there is a text column (each holding at least one present value, as a column
  read as text does), the imbalance insight reports the text column whose most frequent
  value has the largest relative frequency among the column's present values, the first
  in declaration order among ties, with that frequency times 100. A column in which one
  value fills 80 percent of the present cells, and which is the most dominant one, is
  reported with dominance 80. Without text columns nothing is reported.
\<close>

theorem insight3_most_imbalanced:
  "(categorical_cols df = [] \<longrightarrow> insight3 df = Inr None)
   \<and> (categorical_cols df \<noteq> [] \<and> (\<forall>x\<in>set (categorical_cols df). somes (snd x) \<noteq> []) \<longrightarrow>
        (\<exists>i. first_max_at (\<lambda>x. top_frequency (snd x)) (categorical_cols df) i
             \<and> insight3 df = Inr (Some (fst (categorical_cols df ! i),
                                         Some (top_frequency (snd (categorical_cols df ! i)) * 100)))))
   \<and> (\<forall>i v. (\<forall>x\<in>set (categorical_cols df). somes (snd x) \<noteq> [])
          \<and> first_max_at (\<lambda>x. top_frequency (snd x)) (categorical_cols df) i
          \<and> v \<in> set (somes (snd (categorical_cols df ! i)))
          \<and> 5 * count_list (somes (snd (categorical_cols df ! i))) v
              = 4 * length (somes (snd (categorical_cols df ! i))) \<longrightarrow>
        insight3 df = Inr (Some (fst (categorical_cols df ! i), Some 80)))"
proof -
  let ?cats = "categorical_cols df"
  have a: "?cats = [] \<longrightarrow> insight3 df = Inr None" by (simp add: insight3_def)
  have b: "?cats \<noteq> [] \<and> (\<forall>x\<in>set ?cats. somes (snd x) \<noteq> []) \<longrightarrow>
        (\<exists>i. first_max_at (\<lambda>x. top_frequency (snd x)) ?cats i
             \<and> insight3 df = Inr (Some (fst (?cats ! i),
                                         Some (top_frequency (snd (?cats ! i)) * 100))))"
    using insight3_first_max by blast
  have c: "\<forall>i v. (\<forall>x\<in>set ?cats. somes (snd x) \<noteq> [])
          \<and> first_max_at (\<lambda>x. top_frequency (snd x)) ?cats i
          \<and> v \<in> set (somes (snd (?cats ! i)))
          \<and> 5 * count_list (somes (snd (?cats ! i))) v = 4 * length (somes (snd (?cats ! i))) \<longrightarrow>
        insight3 df = Inr (Some (fst (?cats ! i), Some 80))"
  proof (intro allI impI)
    fix i v
    assume h: "(\<forall>x\<in>set ?cats. somes (snd x) \<noteq> [])
          \<and> first_max_at (\<lambda>x. top_frequency (snd x)) ?cats i
          \<and> v \<in> set (somes (snd (?cats ! i)))
          \<and> 5 * count_list (somes (snd (?cats ! i))) v = 4 * length (somes (snd (?cats ! i)))"
    then have ne: "?cats \<noteq> []" by (auto simp: first_max_at_def)
    from insight3_first_max[OF ne] h obtain m where
      fm: "first_max_at (\<lambda>x. top_frequency (snd x)) ?cats m" and
      r: "insight3 df = Inr (Some (fst (?cats ! m), Some (top_frequency (snd (?cats ! m)) * 100)))"
      by blast
    have "m = i" using fm h first_max_at_unique by blast
    moreover have "top_frequency (snd (?cats ! i)) = 4 / 5" using h top_frequency_80 by blast
    ultimately show "insight3 df = Inr (Some (fst (?cats ! i), Some 80))" using r by simp
  qed
  from a b c show ?thesis by blast
qed

theorem insight3_most_imbalanced_witness:
  "categorical_cols [(''n'', NumCol [Some 1, Some 2, Some 3, Some 4, Some 5, Some 6]),
       (''c1'', ObjCol [Some ''a'', Some ''a'', Some ''a'', None, Some ''a'', Some ''b'']),
       (''c2'', ObjCol [Some ''x'', Some ''y'', Some ''x'', Some ''y'', Some ''z'', Some ''z''])] \<noteq> []
   \<and> insight3 [(''n'', NumCol [Some 1, Some 2, Some 3, Some 4, Some 5, Some 6]),
       (''c1'', ObjCol [Some ''a'', Some ''a'', Some ''a'', None, Some ''a'', Some ''b'']),
       (''c2'', ObjCol [Some ''x'', Some ''y'', Some ''x'', Some ''y'', Some ''z'', Some ''z''])]
     = Inr (Some (''c1'', Some 80))"
proof -
  let ?T = "[(''n'', NumCol [Some 1, Some 2, Some 3, Some 4, Some 5, Some 6]),
       (''c1'', ObjCol [Some ''a'', Some ''a'', Some ''a'', None, Some ''a'', Some ''b'']),
       (''c2'', ObjCol [Some ''x'', Some ''y'', Some ''x'', Some ''y'', Some ''z'', Some ''z''])]"
  have cc: "categorical_cols ?T
     = [(''c1'', [Some ''a'', Some ''a'', Some ''a'', None, Some ''a'', Some ''b'']),
        (''c2'', [Some ''x'', Some ''y'', Some ''x'', Some ''y'', Some ''z'', Some ''z''])]"
    by simp
  have t1: "top_frequency [Some ''a'', Some ''a'', Some ''a'', None, Some ''a'', Some ''b''] = 4 / 5"
    by (rule top_frequency_80[of "''a''"]) simp_all
  have t2: "top_frequency [Some ''x'', Some ''y'', Some ''x'', Some ''y'', Some ''z'', Some ''z''] = 1 / 3"
    by (simp add: top_frequency_def)
  have h1: "\<forall>x\<in>set (categorical_cols ?T). somes (snd x) \<noteq> []"
    unfolding cc by simp
  have h2: "first_max_at (\<lambda>x. top_frequency (snd x)) (categorical_cols ?T) 0"
    unfolding cc by (simp add: first_max_at_def All_less_Suc t1 t2)
  have h3: "''a'' \<in> set (somes (snd (categorical_cols ?T ! 0)))"
    unfolding cc by simp
  have h4: "5 * count_list (somes (snd (categorical_cols ?T ! 0))) ''a''
              = 4 * length (somes (snd (categorical_cols ?T ! 0)))"
    unfolding cc by simp
  have "\<forall>i v. (\<forall>x\<in>set (categorical_cols ?T). somes (snd x) \<noteq> [])
          \<and> first_max_at (\<lambda>x. top_frequency (snd x)) (categorical_cols ?T) i
          \<and> v \<in> set (somes (snd (categorical_cols ?T ! i)))
          \<and> 5 * count_list (somes (snd (categorical_cols ?T ! i))) v
              = 4 * length (somes (snd (categorical_cols ?T ! i))) \<longrightarrow>
        insight3 ?T = Inr (Some (fst (categorical_cols ?T ! i), Some 80))"
    using insight3_most_imbalanced[of ?T] by blast
  with h1 h2 h3 h4 have "insight3 ?T = Inr (Some (fst (categorical_cols ?T ! 0), Some 80))"
    by blast
  then have "insight3 ?T = Inr (Some (''c1'', Some 80))" unfolding cc by simp
  moreover have "categorical_cols ?T \<noteq> []" unfolding cc by simp
  ultimately show ?thesis by blast
qed

section \<open>Insight 5: the time trend\<close>

lemma to_datetime_converted:
  "to_datetime conv c = (case converted conv c of None \<Rightarrow> Inl ValueError | Some ds \<Rightarrow> Inr ds)"
  by (cases c) simp_all

lemma time_loop_none:
  "(\<forall>c\<in>set cs. converted conv (snd c) = None) \<Longrightarrow> time_loop conv cs = None"
  by (induction cs) (auto simp: to_datetime_converted)

lemma time_loop_first:
  assumes "\<forall>p\<in>set pre. converted conv (snd p) = None" and "converted conv c = Some ds"
  shows "time_loop conv (pre @ (n, c) # post) = Some (n, ds)"
  using assms by (induction pre) (auto simp: to_datetime_converted)

lemma dropna2_kept_rows: "dropna2 ds vs = kept_rows ds vs"
proof -
  have "\<And>zs :: ('a option \<times> 'b option) list. List.map_filter both zs
      = map (\<lambda>(a, b). (the a, the b)) (filter (\<lambda>(a, b). a \<noteq> None \<and> b \<noteq> None) zs)"
  proof -
    fix zs :: "('a option \<times> 'b option) list"
    show "List.map_filter both zs
      = map (\<lambda>(a, b). (the a, the b)) (filter (\<lambda>(a, b). a \<noteq> None \<and> b \<noteq> None) zs)"
    proof (induction zs)
      case Nil
      show ?case by (simp add: List.map_filter_simps)
    next
      case (Cons z zs)
      obtain a b where z: "z = (a, b)" by (cases z)
      show ?case using Cons z by (cases a; cases b) (simp_all add: List.map_filter_simps)
    qed
  qed
  then show ?thesis by (simp add: dropna2_def kept_rows_def)
qed

lemma groupby_mean_keys:
  "sorted_wrt (<) (map fst (groupby_mean rows))"
  "set (map fst (groupby_mean rows)) = fst ` set rows"
proof -
  have e: "map fst (groupby_mean rows) = sort (remdups (map fst rows))"
    by (simp add: groupby_mean_def comp_def)
  show "sorted_wrt (<) (map fst (groupby_mean rows))"
    unfolding e by (simp add: strict_sorted_iff)
  show "set (map fst (groupby_mean rows)) = fst ` set rows"
    unfolding e by simp
qed

lemma groupby_mean_values:
  assumes "(d, m) \<in> set (groupby_mean rows)"
  shows "m = mean (map snd (filter (\<lambda>r. fst r = d) rows))"
  using assms by (auto simp: groupby_mean_def)

lemma datetime_cols_append: "datetime_cols (xs @ ys) = datetime_cols xs @ datetime_cols ys"
  by (induction xs rule: datetime_cols.induct) simp_all

lemma numeric_cols_append: "numeric_cols (xs @ ys) = numeric_cols xs @ numeric_cols ys"
  by (induction xs rule: numeric_cols.induct) simp_all

lemma no_candidate:
  assumes "\<forall>p\<in>set df. time_candidate conv (snd p) = None"
  shows "\<forall>c\<in>set (datetime_cols df). converted conv (snd c) = None"
  using assms by (induction df rule: datetime_cols.induct) simp_all

lemma no_numeric:
  assumes "\<forall>p\<in>set df. numeric_cells (snd p) = None"
  shows "numeric_cols df = []"
  using assms by (induction df rule: numeric_cols.induct) simp_all

lemma first_candidate:
  assumes "time_candidate conv col = Some ds"
  shows "\<exists>c. datetime_cols (pre @ (n, col) # post)
              = datetime_cols pre @ (n, c) # datetime_cols post
           \<and> converted conv c = Some ds"
  using assms by (cases col) (simp_all add: datetime_cols_append)

lemma first_numeric:
  assumes "\<forall>p\<in>set pre. numeric_cells (snd p) = None" and "numeric_cells col = Some vs"
  shows "numeric_cols (pre @ (y, col) # post) = (y, vs) # numeric_cols post"
  using assms by (cases col) (simp_all add: numeric_cols_append no_numeric)

lemma insight5_none:
  assumes "(\<forall>c\<in>set (datetime_cols df). converted conv (snd c) = None) \<or> numeric_cols df = []"
  shows "fst (insight5 conv df) = None"
  using assms
  by (auto simp: insight5_def time_loop_none Let_def split: option.splits prod.splits list.splits)

lemma insight5_some:
  assumes "datetime_cols df = pre @ (n, c) # post"
    and "\<forall>p\<in>set pre. converted conv (snd p) = None" and "converted conv c = Some ds"
    and "numeric_cols df = (y, vs) # rest"
  shows "fst (insight5 conv df) = Some (n, y, groupby_mean (kept_rows ds vs))"
  using assms by (simp add: insight5_def time_loop_first dropna2_kept_rows)

lemma compute_reports:
  assumes "category_counts df = Inr u" and "insight1 (tie_rank lib) (corr_var lib df) = Inr r1"
    and "insight3 df = Inr r3" and "insight4 df = Inr r4"
  shows "fst (compute lib df)
     = Inr \<lparr>top_pair = r1, most_missing = insight2 df, most_imbalanced = r3, most_outliers = r4,
            time_trend = fst (insight5 (pd_to_datetime lib) df)\<rparr>"
  using assms by (simp add: compute_def split: prod.splits)

lemma pearson_123_132:
  "pearson [Some 1, Some 2, Some 3] [Some 1, Some 2, Some 3] = Some 1"
  "pearson [Some 1, Some 2, Some 3] [Some 1, Some 3, Some 2] = Some (1 / 2)"
  "pearson [Some 1, Some 3, Some 2] [Some 1, Some 2, Some 3] = Some (1 / 2)"
  "pearson [Some 1, Some 3, Some 2] [Some 1, Some 3, Some 2] = Some 1"
  by (simp_all add: pearson_def dropna2_def List.map_filter_def mean_def clip1_def)

lemma example_to_datetime_values:
  "example_to_datetime now [Some ''2020-01-01'', Some ''2020-01-01'', Some ''2020-01-02'']
     = Some [Some 1577836800000000000, Some 1577836800000000000, Some 1577923200000000000]"
  "example_to_datetime now [Some ''2020-01-01''] = Some [Some 1577836800000000000]"
  "example_to_datetime now [Some ''2020-01-02''] = Some [Some 1577923200000000000]"
  "example_to_datetime now [Some ''01/02/2020''] = Some [Some 1577923200000000000]"
  "example_to_datetime now [Some ''now'', None, None] = Some [Some now, None, None]"
  "example_to_datetime now [Some ''2020-01-01'', Some ''01/02/2020'', Some ''2020-01-02''] = None"
  "example_to_datetime now [Some ''abc'', Some ''2020-01-01'', None] = None"
  by (simp_all add: example_to_datetime_def)

lemma example_trend_datetime:
  assumes "t1 < t2"
  shows "fst (insight5 conv
      [(''date'', DtCol [Some t1, Some t1, Some t2]),
       (''value'', NumCol [Some 10, Some 20, Some 30])])
   = Some (''date'', ''value'', [(t1, 15), (t2, 30)])"
proof -
  have "sort [t1, t2] = [t1, t2]" using assms by simp
  then show ?thesis using assms
    by (simp add: insight5_def dropna2_def List.map_filter_def groupby_mean_def mean_def)
qed

lemma example_trend_text:
  "fst (insight5 (example_to_datetime now)
      [(''date'', ObjCol [Some ''2020-01-01'', Some ''2020-01-01'', Some ''2020-01-02'']),
       (''value'', NumCol [Some 10, Some 20, Some 30])])
   = Some (''date'', ''value'', [(1577836800000000000, 15), (1577923200000000000, 30)])"
  by (simp add: insight5_def example_to_datetime_values dropna2_def List.map_filter_def
      groupby_mean_def mean_def)

text \<open>
  C8, as stated: the time-trend insight takes the first column that is datetime-typed or
  whose every non-missing value parses as a datetime. It does not: line 103 converts the
  column as a whole. In the text column \<open>2020-01-01, 01/02/2020, 2020-01-02\<close> every value
  parses alone, yet the conversion of the column raises (pandas infers the format of the
  first value for all of them), the column is passed over and, although there are numeric
  columns, the run ends without a time trend.
\<close>

theorem insight5_skips_mixed_formats:
  "example_to_datetime 0 [Some ''2020-01-01''] = Some [Some 1577836800000000000]
   \<and> example_to_datetime 0 [Some ''01/02/2020''] = Some [Some 1577923200000000000]
   \<and> example_to_datetime 0 [Some ''2020-01-02''] = Some [Some 1577923200000000000]
   \<and> numeric_cols
        [(''index'', ObjCol [Some ''2020-01-01'', Some ''01/02/2020'', Some ''2020-01-02'']),
         (''a'', NumCol [Some 1, Some 2, Some 3]), (''b'', NumCol [Some 1, Some 3, Some 2])]
       = [(''a'', [Some 1, Some 2, Some 3]), (''b'', [Some 1, Some 3, Some 2])]
   \<and> fst (insight5 (example_to_datetime 0)
        [(''index'', ObjCol [Some ''2020-01-01'', Some ''01/02/2020'', Some ''2020-01-02'']),
         (''a'', NumCol [Some 1, Some 2, Some 3]), (''b'', NumCol [Some 1, Some 3, Some 2])]) = None
   \<and> (case fst (compute (pandas_at 0)
        [(''index'', ObjCol [Some ''2020-01-01'', Some ''01/02/2020'', Some ''2020-01-02'']),
         (''a'', NumCol [Some 1, Some 2, Some 3]), (''b'', NumCol [Some 1, Some 3, Some 2])]) of
         Inl e \<Rightarrow> None | Inr r \<Rightarrow> Some (time_trend r)) = Some None"
proof -
  let ?T = "[(''index'', ObjCol [Some ''2020-01-01'', Some ''01/02/2020'', Some ''2020-01-02'']),
         (''a'', NumCol [Some 1, Some 2, Some 3]), (''b'', NumCol [Some 1, Some 3, Some 2])]"
  have c: "category_counts ?T = Inr ()"
    by (simp add: category_counts_def)
  have i1: "insight1 (tie_rank (pandas_at 0)) (corr_var (pandas_at 0) ?T)
      = Inr (''a'', ''b'', 1 / 2)"
    by (simp add: pandas_at_def corr_var_def corr_df_def pearson_123_132 insight1_def abs_df_def
        unstack_def sort_values_desc_def py_max_def)
  have i3: "insight3 ?T = Inr (Some (''index'', Some (100 / 3)))"
    by (simp add: insight3_def py_max_def dominance_def)
  have i4: "insight4 ?T = Inr (''a'', 0)"
    by (simp add: insight4_def py_max_def outliers_def quantile_def)
  have i5: "fst (insight5 (example_to_datetime 0) ?T) = None"
    by (simp add: example_to_datetime_values insight5_def)
  have p: "pd_to_datetime (pandas_at 0) = example_to_datetime 0"
    by (simp add: pandas_at_def)
  have "(case fst (compute (pandas_at 0) ?T) of
         Inl e \<Rightarrow> None | Inr r \<Rightarrow> Some (time_trend r)) = Some None"
    unfolding compute_reports[OF c i1 i3 i4] p i5 by simp
  with i5 show ?thesis by (simp add: example_to_datetime_values)
qed

text \<open>
  C8, amended: the time-trend insight takes the first column in declaration order that is
  datetime-typed or that \<open>pd.to_datetime\<close> converts as a whole without raising (a text
  column on which the call raises is passed over, and no column after the first converted
  one is looked at), pairs it with the first numeric column, drops the rows in which
  either cell is missing, and gives for every distinct date the arithmetic mean (the sum
  over the number) of the numeric cells of its rows, the dates ascending. For the dates 2020-01-01, 2020-01-01,
  2020-01-02 and the numbers 10, 20, 30 the output is (2020-01-01, 15), (2020-01-02, 30).
  Without such a column, or without a numeric column, nothing is reported.
\<close>

theorem insight5_time_trend:
  "((\<forall>p\<in>set df. time_candidate conv (snd p) = None) \<or> (\<forall>p\<in>set df. numeric_cells (snd p) = None)
       \<longrightarrow> fst (insight5 conv df) = None)
   \<and> (\<forall>pre n col post ds npre y ncol npost vs.
         df = pre @ (n, col) # post \<and> (\<forall>p\<in>set pre. time_candidate conv (snd p) = None)
         \<and> time_candidate conv col = Some ds
         \<and> df = npre @ (y, ncol) # npost \<and> (\<forall>p\<in>set npre. numeric_cells (snd p) = None)
         \<and> numeric_cells ncol = Some vs \<longrightarrow>
         (\<exists>pts. fst (insight5 conv df) = Some (n, y, pts)
            \<and> sorted_wrt (<) (map fst pts)
            \<and> set (map fst pts) = fst ` set (kept_rows ds vs)
            \<and> (\<forall>(d, m)\<in>set pts.
                  m = sum_list (map snd (filter (\<lambda>r. fst r = d) (kept_rows ds vs)))
                      / real (length (filter (\<lambda>r. fst r = d) (kept_rows ds vs))))))
   \<and> (\<forall>t1 t2. t1 < t2 \<longrightarrow>
         fst (insight5 conv
            [(''date'', DtCol [Some t1, Some t1, Some t2]),
             (''value'', NumCol [Some 10, Some 20, Some 30])])
         = Some (''date'', ''value'', [(t1, 15), (t2, 30)]))
   \<and> fst (insight5 (example_to_datetime now)
        [(''date'', ObjCol [Some ''2020-01-01'', Some ''2020-01-01'', Some ''2020-01-02'']),
         (''value'', NumCol [Some 10, Some 20, Some 30])])
      = Some (''date'', ''value'', [(1577836800000000000, 15), (1577923200000000000, 30)])"
proof -
  have a: "(\<forall>p\<in>set df. time_candidate conv (snd p) = None) \<or> (\<forall>p\<in>set df. numeric_cells (snd p) = None)
       \<longrightarrow> fst (insight5 conv df) = None"
    using insight5_none[of df conv] no_candidate[of df conv] no_numeric[of df] by blast
  have b: "\<forall>pre n col post ds npre y ncol npost vs.
         df = pre @ (n, col) # post \<and> (\<forall>p\<in>set pre. time_candidate conv (snd p) = None)
         \<and> time_candidate conv col = Some ds
         \<and> df = npre @ (y, ncol) # npost \<and> (\<forall>p\<in>set npre. numeric_cells (snd p) = None)
         \<and> numeric_cells ncol = Some vs \<longrightarrow>
         (\<exists>pts. fst (insight5 conv df) = Some (n, y, pts)
            \<and> sorted_wrt (<) (map fst pts)
            \<and> set (map fst pts) = fst ` set (kept_rows ds vs)
            \<and> (\<forall>(d, m)\<in>set pts.
                  m = sum_list (map snd (filter (\<lambda>r. fst r = d) (kept_rows ds vs)))
                      / real (length (filter (\<lambda>r. fst r = d) (kept_rows ds vs)))))"
  proof (intro allI impI)
    fix pre n col post ds npre y ncol npost vs
    assume h: "df = pre @ (n, col) # post \<and> (\<forall>p\<in>set pre. time_candidate conv (snd p) = None)
         \<and> time_candidate conv col = Some ds
         \<and> df = npre @ (y, ncol) # npost \<and> (\<forall>p\<in>set npre. numeric_cells (snd p) = None)
         \<and> numeric_cells ncol = Some vs"
    let ?rows = "kept_rows ds vs"
    from h first_candidate[of conv col ds pre n post] obtain c where
      c: "datetime_cols df = datetime_cols pre @ (n, c) # datetime_cols post"
         "converted conv c = Some ds"
      by auto
    have p: "\<forall>q\<in>set (datetime_cols pre). converted conv (snd q) = None"
      using h no_candidate by blast
    have nc: "numeric_cols df = (y, vs) # numeric_cols npost"
      using h first_numeric[of npre ncol vs y npost] by auto
    have "fst (insight5 conv df) = Some (n, y, groupby_mean ?rows)"
      using insight5_some[OF c(1) p c(2) nc] .
    moreover have "sorted_wrt (<) (map fst (groupby_mean ?rows))"
      by (rule groupby_mean_keys)
    moreover have "set (map fst (groupby_mean ?rows)) = fst ` set ?rows"
      by (rule groupby_mean_keys)
    moreover have "\<forall>(d, m)\<in>set (groupby_mean ?rows).
        m = sum_list (map snd (filter (\<lambda>r. fst r = d) ?rows))
            / real (length (filter (\<lambda>r. fst r = d) ?rows))"
      using groupby_mean_values[of _ _ ?rows] by (auto simp: mean_def)
    ultimately show "(\<exists>pts. fst (insight5 conv df) = Some (n, y, pts)
            \<and> sorted_wrt (<) (map fst pts)
            \<and> set (map fst pts) = fst ` set ?rows
            \<and> (\<forall>(d, m)\<in>set pts.
                  m = sum_list (map snd (filter (\<lambda>r. fst r = d) ?rows))
                      / real (length (filter (\<lambda>r. fst r = d) ?rows))))"
      by blast
  qed
  have c: "\<forall>t1 t2. t1 < t2 \<longrightarrow>
         fst (insight5 conv
            [(''date'', DtCol [Some t1, Some t1, Some t2]),
             (''value'', NumCol [Some 10, Some 20, Some 30])])
         = Some (''date'', ''value'', [(t1, 15), (t2, 30)])"
    using example_trend_datetime by blast
  from a b c example_trend_text show ?thesis by blast
qed

theorem insight5_time_trend_witness:
  "time_candidate (example_to_datetime 0) (ObjCol [Some ''abc'', Some ''2020-01-01'', None]) = None
   \<and> (\<exists>pts. fst (insight5 (example_to_datetime 0)
          [(''index'', ObjCol [Some ''abc'', Some ''2020-01-01'', None]),
           (''date'', ObjCol [Some ''2020-01-01'', Some ''2020-01-01'', Some ''2020-01-02'']),
           (''a'', NumCol [Some 1, Some 2, Some 3]), (''b'', NumCol [Some 1, Some 3, Some 2]),
           (''again'', ObjCol [Some ''2020-01-01'', Some ''2020-01-01'', Some ''2020-01-02''])]) = Some (''date'', ''a'', pts)
         \<and> sorted_wrt (<) (map fst pts))"
proof -
  let ?T = "[(''index'', ObjCol [Some ''abc'', Some ''2020-01-01'', None]),
           (''date'', ObjCol [Some ''2020-01-01'', Some ''2020-01-01'', Some ''2020-01-02'']),
           (''a'', NumCol [Some 1, Some 2, Some 3]), (''b'', NumCol [Some 1, Some 3, Some 2]),
           (''again'', ObjCol [Some ''2020-01-01'', Some ''2020-01-01'', Some ''2020-01-02''])]"
  let ?conv = "example_to_datetime 0"
  let ?dates = "ObjCol [Some ''2020-01-01'', Some ''2020-01-01'', Some ''2020-01-02'']"
  let ?ds = "[Some 1577836800000000000, Some 1577836800000000000, Some 1577923200000000000]
              :: int option list"
  let ?pre = "[(''index'', ObjCol [Some ''abc'', Some ''2020-01-01'', None])]"
  let ?post = "[(''a'', NumCol [Some 1, Some 2, Some 3]), (''b'', NumCol [Some 1, Some 3, Some 2]),
                (''again'', ?dates)]"
  let ?npre = "[(''index'', ObjCol [Some ''abc'', Some ''2020-01-01'', None]), (''date'', ?dates)]"
  let ?npost = "[(''b'', NumCol [Some 1, Some 3, Some 2]), (''again'', ?dates)]"
  have h0: "time_candidate ?conv (ObjCol [Some ''abc'', Some ''2020-01-01'', None]) = None"
    by (simp add: example_to_datetime_values)
  have h: "?T = ?pre @ (''date'', ?dates) # ?post
         \<and> (\<forall>p\<in>set ?pre. time_candidate ?conv (snd p) = None)
         \<and> time_candidate ?conv ?dates = Some ?ds
         \<and> ?T = ?npre @ (''a'', NumCol [Some 1, Some 2, Some 3]) # ?npost
         \<and> (\<forall>p\<in>set ?npre. numeric_cells (snd p) = None)
         \<and> numeric_cells (NumCol [Some 1, Some 2, Some 3]) = Some [Some 1, Some 2, Some 3]"
    by (simp add: example_to_datetime_values)
  have "\<forall>pre n col post ds npre y ncol npost vs.
         ?T = pre @ (n, col) # post \<and> (\<forall>p\<in>set pre. time_candidate ?conv (snd p) = None)
         \<and> time_candidate ?conv col = Some ds
         \<and> ?T = npre @ (y, ncol) # npost \<and> (\<forall>p\<in>set npre. numeric_cells (snd p) = None)
         \<and> numeric_cells ncol = Some vs \<longrightarrow>
         (\<exists>pts. fst (insight5 ?conv ?T) = Some (n, y, pts)
            \<and> sorted_wrt (<) (map fst pts)
            \<and> set (map fst pts) = fst ` set (kept_rows ds vs)
            \<and> (\<forall>(d, m)\<in>set pts.
                  m = sum_list (map snd (filter (\<lambda>r. fst r = d) (kept_rows ds vs)))
                      / real (length (filter (\<lambda>r. fst r = d) (kept_rows ds vs)))))"
    using insight5_time_trend[of ?T ?conv] by blast
  with h have "\<exists>pts. fst (insight5 ?conv ?T) = Some (''date'', ''a'', pts)
         \<and> sorted_wrt (<) (map fst pts)"
    by blast
  with h0 show ?thesis by blast
qed

section \<open>What a run does to the table\<close>

lemma set_col_names: "map fst (set_col c col df) = map fst df"
  by (induction df) (auto simp: set_col_def)

lemma set_col_nth:
  assumes "i < length df"
  shows "set_col c col df ! i = (if fst (df ! i) = c then (c, col) else df ! i)"
  using assms by (simp add: set_col_def case_prod_unfold)

lemma insight5_frame:
  "snd (insight5 conv df) =
     (case time_loop conv (datetime_cols df) of
        None \<Rightarrow> df
      | Some (c, ds) \<Rightarrow> set_col c (DtCol ds) df)"
  by (simp add: insight5_def Let_def split: option.splits prod.splits list.splits)

lemma compute_error_frame:
  assumes "fst (compute lib df) = Inl e"
  shows "snd (compute lib df) = df"
  using assms by (simp add: compute_def Let_def split: sum.splits prod.splits)

lemma compute_report_frame:
  assumes "fst (compute lib df) = Inr r"
  shows "snd (compute lib df) = snd (insight5 (pd_to_datetime lib) df)"
  using assms by (simp add: compute_def Let_def split: sum.splits prod.splits)

lemma compute_frame:
  "snd (compute lib df) = df \<or> snd (compute lib df) = snd (insight5 (pd_to_datetime lib) df)"
proof (cases "fst (compute lib df)")
  case (Inl e)
  then show ?thesis by (simp add: compute_error_frame)
next
  case (Inr r)
  then show ?thesis by (simp add: compute_report_frame)
qed

lemma insight5_unchanged:
  assumes "\<forall>c\<in>set (datetime_cols df). converted conv (snd c) = None"
  shows "snd (insight5 conv df) = df"
  using assms by (simp add: insight5_frame time_loop_none)

lemma insight5_replaced:
  assumes "datetime_cols df = pre @ (n, c) # post"
    and "\<forall>p\<in>set pre. converted conv (snd p) = None" and "converted conv c = Some ds"
  shows "snd (insight5 conv df) = set_col n (DtCol ds) df"
  using assms by (simp add: insight5_frame time_loop_first)

lemma insight5_one_column:
  assumes "distinct (map fst df)" and "i < length df" and "j < length df"
    and "snd (insight5 conv df) ! i \<noteq> df ! i" and "snd (insight5 conv df) ! j \<noteq> df ! j"
  shows "i = j"
proof (cases "time_loop conv (datetime_cols df)")
  case None
  then show ?thesis using assms(4) by (simp add: insight5_frame)
next
  case (Some r)
  obtain c ds where r: "r = (c, ds)" by (cases r)
  have fr: "snd (insight5 conv df) = set_col c (DtCol ds) df"
    using Some r by (simp add: insight5_frame)
  have "fst (df ! i) = c" using assms(2,4) fr by (simp add: set_col_nth split: if_splits)
  moreover have "fst (df ! j) = c" using assms(3,5) fr by (simp add: set_col_nth split: if_splits)
  ultimately have "map fst df ! i = map fst df ! j" using assms(2,3) by simp
  moreover have "i < length (map fst df)" "j < length (map fst df)" using assms(2,3) by simp_all
  ultimately show ?thesis using assms(1) nth_eq_iff_index_eq by blast
qed

lemma example_run_reports:
  "\<exists>r. fst (compute (pandas_at now)
      [(''a'', NumCol [Some 1, Some 2, Some 3]), (''b'', NumCol [Some 1, Some 3, Some 2]),
       (''index'', ObjCol [Some ''2020-01-01'', Some ''2020-01-01'', Some ''2020-01-02''])]) = Inr r"
proof -
  let ?T = "[(''a'', NumCol [Some 1, Some 2, Some 3]), (''b'', NumCol [Some 1, Some 3, Some 2]),
       (''index'', ObjCol [Some ''2020-01-01'', Some ''2020-01-01'', Some ''2020-01-02''])]"
  have c: "category_counts ?T = Inr ()"
    by (simp add: category_counts_def)
  have i1: "insight1 (tie_rank (pandas_at now)) (corr_var (pandas_at now) ?T)
      = Inr (''a'', ''b'', 1 / 2)"
    by (simp add: pandas_at_def corr_var_def corr_df_def pearson_123_132 insight1_def abs_df_def
        unstack_def sort_values_desc_def py_max_def)
  have i3: "insight3 ?T = Inr (Some (''index'', Some (200 / 3)))"
    by (simp add: insight3_def py_max_def dominance_def)
  have i4: "insight4 ?T = Inr (''a'', 0)"
    by (simp add: insight4_def py_max_def outliers_def quantile_def)
  from compute_reports[OF c i1 i3 i4] show ?thesis by blast
qed

text \<open>
  C3, as stated: the insight computation leaves the input table unchanged. It does not:
  line 103 assigns the converted column back to \<open>df\<close>. On the table with the numeric
  columns \<open>a\<close> and \<open>b\<close> and the text column \<open>index\<close> of dates, the run leaves \<open>index\<close> as a
  datetime column.
\<close>

theorem compute_changes_the_table:
  "snd (compute (pandas_at 0)
      [(''a'', NumCol [Some 1, Some 2, Some 3]), (''b'', NumCol [Some 1, Some 3, Some 2]),
       (''index'', ObjCol [Some ''2020-01-01'', Some ''2020-01-01'', Some ''2020-01-02''])])
   = [(''a'', NumCol [Some 1, Some 2, Some 3]), (''b'', NumCol [Some 1, Some 3, Some 2]),
       (''index'', DtCol [Some 1577836800000000000, Some 1577836800000000000,
                          Some 1577923200000000000])]
   \<and> snd (compute (pandas_at 0)
      [(''a'', NumCol [Some 1, Some 2, Some 3]), (''b'', NumCol [Some 1, Some 3, Some 2]),
       (''index'', ObjCol [Some ''2020-01-01'', Some ''2020-01-01'', Some ''2020-01-02''])])
   \<noteq> [(''a'', NumCol [Some 1, Some 2, Some 3]), (''b'', NumCol [Some 1, Some 3, Some 2]),
       (''index'', ObjCol [Some ''2020-01-01'', Some ''2020-01-01'', Some ''2020-01-02''])]"
proof -
  let ?T = "[(''a'', NumCol [Some 1, Some 2, Some 3]), (''b'', NumCol [Some 1, Some 3, Some 2]),
       (''index'', ObjCol [Some ''2020-01-01'', Some ''2020-01-01'', Some ''2020-01-02''])]"
  obtain r where "fst (compute (pandas_at 0) ?T) = Inr r"
    using example_run_reports[of 0] by blast
  then have "snd (compute (pandas_at 0) ?T) = snd (insight5 (pd_to_datetime (pandas_at 0)) ?T)"
    by (rule compute_report_frame)
  moreover have "snd (insight5 (pd_to_datetime (pandas_at 0)) ?T)
     = [(''a'', NumCol [Some 1, Some 2, Some 3]), (''b'', NumCol [Some 1, Some 3, Some 2]),
       (''index'', DtCol [Some 1577836800000000000, Some 1577836800000000000,
                          Some 1577923200000000000])]"
    by (simp add: insight5_frame pandas_at_def example_to_datetime_values set_col_def)
  ultimately show ?thesis by simp
qed

text \<open>
  C3, amended: a run keeps the labels of the table and their order. A run that does not
  raise assigns to the column it takes as time column (the first column of the table that
  is a datetime column or a text column which \<open>pd.to_datetime\<close> converts) the timestamps
  of that column, so that a text column becomes a datetime column, and leaves every column
  with another label as it is. A run that raises, and a run on a table without such a
  column, leave the table unchanged. With unique labels at most one column is changed.
\<close>

theorem compute_replaces_time_column:
  "map fst (snd (compute lib df)) = map fst df
   \<and> (\<forall>e. fst (compute lib df) = Inl e \<longrightarrow> snd (compute lib df) = df)
   \<and> ((\<forall>p\<in>set df. time_candidate (pd_to_datetime lib) (snd p) = None)
        \<longrightarrow> snd (compute lib df) = df)
   \<and> (\<forall>r pre n col post ds.
         fst (compute lib df) = Inr r \<and> df = pre @ (n, col) # post
         \<and> (\<forall>p\<in>set pre. time_candidate (pd_to_datetime lib) (snd p) = None)
         \<and> time_candidate (pd_to_datetime lib) col = Some ds \<longrightarrow>
         length (snd (compute lib df)) = length df
         \<and> (\<forall>i<length df. snd (compute lib df) ! i
                 = (if fst (df ! i) = n then (n, DtCol ds) else df ! i)))
   \<and> (distinct (map fst df) \<longrightarrow>
        (\<forall>i<length df. \<forall>j<length df.
           snd (compute lib df) ! i \<noteq> df ! i \<and> snd (compute lib df) ! j \<noteq> df ! j \<longrightarrow> i = j))"
proof -
  let ?conv = "pd_to_datetime lib"
  have l: "map fst (snd (compute lib df)) = map fst df"
    using compute_frame[of lib df]
    by (auto simp: insight5_frame set_col_names split: option.splits)
  have a: "\<forall>e. fst (compute lib df) = Inl e \<longrightarrow> snd (compute lib df) = df"
    using compute_error_frame by blast
  have b: "(\<forall>p\<in>set df. time_candidate ?conv (snd p) = None) \<longrightarrow> snd (compute lib df) = df"
    using compute_frame[of lib df] insight5_unchanged[of df ?conv] no_candidate[of df ?conv]
    by auto
  have c: "\<forall>r pre n col post ds.
         fst (compute lib df) = Inr r \<and> df = pre @ (n, col) # post
         \<and> (\<forall>p\<in>set pre. time_candidate (pd_to_datetime lib) (snd p) = None)
         \<and> time_candidate (pd_to_datetime lib) col = Some ds \<longrightarrow>
         length (snd (compute lib df)) = length df
         \<and> (\<forall>i<length df. snd (compute lib df) ! i
                 = (if fst (df ! i) = n then (n, DtCol ds) else df ! i))"
  proof (intro allI impI)
    fix r pre n col post ds
    assume h: "fst (compute lib df) = Inr r \<and> df = pre @ (n, col) # post
         \<and> (\<forall>p\<in>set pre. time_candidate (pd_to_datetime lib) (snd p) = None)
         \<and> time_candidate (pd_to_datetime lib) col = Some ds"
    from h first_candidate[of ?conv col ds pre n post] obtain c where
      c: "datetime_cols df = datetime_cols pre @ (n, c) # datetime_cols post"
         "converted ?conv c = Some ds"
      by auto
    have p: "\<forall>q\<in>set (datetime_cols pre). converted ?conv (snd q) = None"
      using h no_candidate by blast
    have "snd (compute lib df) = snd (insight5 ?conv df)"
      using h compute_report_frame by blast
    also have "\<dots> = set_col n (DtCol ds) df"
      using insight5_replaced[OF c(1) p c(2)] .
    finally have fr: "snd (compute lib df) = set_col n (DtCol ds) df" .
    have "length (snd (compute lib df)) = length df"
      unfolding fr by (simp add: set_col_def)
    moreover have "\<forall>i<length df. snd (compute lib df) ! i
                 = (if fst (df ! i) = n then (n, DtCol ds) else df ! i)"
      unfolding fr by (simp add: set_col_nth)
    ultimately show "length (snd (compute lib df)) = length df
         \<and> (\<forall>i<length df. snd (compute lib df) ! i
                 = (if fst (df ! i) = n then (n, DtCol ds) else df ! i))"
      by blast
  qed
  have d: "distinct (map fst df) \<longrightarrow>
        (\<forall>i<length df. \<forall>j<length df.
           snd (compute lib df) ! i \<noteq> df ! i \<and> snd (compute lib df) ! j \<noteq> df ! j \<longrightarrow> i = j)"
  proof (intro allI impI)
    fix i j assume dis: "distinct (map fst df)" and il: "i < length df" and jl: "j < length df"
      and ch: "snd (compute lib df) ! i \<noteq> df ! i \<and> snd (compute lib df) ! j \<noteq> df ! j"
    then have "snd (compute lib df) = snd (insight5 ?conv df)"
      using compute_frame[of lib df] by auto
    then show "i = j" using insight5_one_column[OF dis il jl, of ?conv] ch by simp
  qed
  from l a b c d show ?thesis by blast
qed

theorem compute_replaces_time_column_witness:
  "time_candidate (pd_to_datetime (pandas_at 0))
      (ObjCol [Some ''2020-01-01'', Some ''2020-01-01'', Some ''2020-01-02''])
     = Some [Some 1577836800000000000, Some 1577836800000000000, Some 1577923200000000000]
   \<and> snd (compute (pandas_at 0)
      [(''a'', NumCol [Some 1, Some 2, Some 3]), (''b'', NumCol [Some 1, Some 3, Some 2]),
       (''index'', ObjCol [Some ''2020-01-01'', Some ''2020-01-01'', Some ''2020-01-02''])]) ! 2
     = (''index'', DtCol [Some 1577836800000000000, Some 1577836800000000000,
                          Some 1577923200000000000])
   \<and> snd (compute (pandas_at 0)
      [(''a'', NumCol [Some 1, Some 2, Some 3]), (''b'', NumCol [Some 1, Some 3, Some 2]),
       (''index'', ObjCol [Some ''2020-01-01'', Some ''2020-01-01'', Some ''2020-01-02''])]) ! 0
     = (''a'', NumCol [Some 1, Some 2, Some 3])"
proof -
  let ?T = "[(''a'', NumCol [Some 1, Some 2, Some 3]), (''b'', NumCol [Some 1, Some 3, Some 2]),
       (''index'', ObjCol [Some ''2020-01-01'', Some ''2020-01-01'', Some ''2020-01-02''])]"
  let ?lib = "pandas_at 0"
  let ?col = "ObjCol [Some ''2020-01-01'', Some ''2020-01-01'', Some ''2020-01-02'']"
  let ?ds = "[Some 1577836800000000000, Some 1577836800000000000, Some 1577923200000000000]
              :: int option list"
  let ?pre = "[(''a'', NumCol [Some 1, Some 2, Some 3]), (''b'', NumCol [Some 1, Some 3, Some 2])]"
  obtain r where h1: "fst (compute ?lib ?T) = Inr r"
    using example_run_reports[of 0] by blast
  have h2: "?T = ?pre @ (''index'', ?col) # []
      \<and> (\<forall>p\<in>set ?pre. time_candidate (pd_to_datetime ?lib) (snd p) = None)"
    by simp
  have h3: "time_candidate (pd_to_datetime ?lib) ?col = Some ?ds"
    by (simp add: pandas_at_def example_to_datetime_values)
  have "\<forall>r pre n col post ds.
         fst (compute ?lib ?T) = Inr r \<and> ?T = pre @ (n, col) # post
         \<and> (\<forall>p\<in>set pre. time_candidate (pd_to_datetime ?lib) (snd p) = None)
         \<and> time_candidate (pd_to_datetime ?lib) col = Some ds \<longrightarrow>
         length (snd (compute ?lib ?T)) = length ?T
         \<and> (\<forall>i<length ?T. snd (compute ?lib ?T) ! i
                 = (if fst (?T ! i) = n then (n, DtCol ds) else ?T ! i))"
    using compute_replaces_time_column[of ?lib ?T] by blast
  with h1 h2 h3 have "\<forall>i<length ?T. snd (compute ?lib ?T) ! i
                 = (if fst (?T ! i) = ''index'' then (''index'', DtCol ?ds) else ?T ! i)"
    by blast
  then have "snd (compute ?lib ?T) ! 2 = (''index'', DtCol ?ds)
      \<and> snd (compute ?lib ?T) ! 0 = (''a'', NumCol [Some 1, Some 2, Some 3])"
    by (simp add: All_less_Suc numeral_3_eq_3 numeral_2_eq_2)
  with h3 show ?thesis by blast
qed

section \<open>Insight 1: the most correlated pair\<close>

lemma below1_mem: "(k, v) \<in> set (below1 s) \<longleftrightarrow> (k, Some v) \<in> set s \<and> v < 1"
  by (induction s rule: below1.induct) auto

lemma sort_values_desc_set: "set (sort_values_desc rank s) = set s"
  by (auto simp: sort_values_desc_def)

lemma entries_unstack:
  "((a, b), w) \<in> set (unstack (abs_df m)) \<longleftrightarrow>
     (\<exists>v. ((a, b), v) \<in> entries m \<and> w = map_option abs v)"
  by (auto simp: unstack_def abs_df_def entries_def case_prod_unfold image_iff) force+

lemma py_max_mem:
  fixes d :: "('k \<times> 'v::linorder) list"
  assumes "py_max (\<lambda>a b. a > b) d = Inr (k, v)"
  shows "(k, v) \<in> set d \<and> (\<forall>x\<in>set d. snd x \<le> v)"
proof -
  have ne: "d \<noteq> []" using assms by (auto simp: py_max_def)
  from py_max_linorder[OF ne] assms obtain i where
    fm: "first_max_at snd d i" and e: "d ! i = (k, v)" by auto
  have il: "i < length d" using fm by (simp add: first_max_at_def)
  then have "(k, v) \<in> set d" using e by (metis nth_mem)
  moreover have "\<forall>x\<in>set d. snd x \<le> v"
  proof
    fix x assume "x \<in> set d"
    then obtain j where "j < length d" "d ! j = x" by (metis in_set_conv_nth)
    then show "snd x \<le> v" using fm e by (auto simp: first_max_at_def)
  qed
  ultimately show ?thesis by blast
qed

lemma insight1_reports:
  assumes "((c0, r0), Some x0) \<in> entries m" and "\<bar>x0\<bar> < 1"
  shows "\<exists>a b v. insight1 rank (Some m) = Inr (a, b, v)
           \<and> (\<exists>x. ((a, b), Some x) \<in> entries m \<and> v = \<bar>x\<bar>)
           \<and> v < 1
           \<and> (\<forall>c r x. ((c, r), Some x) \<in> entries m \<and> \<bar>x\<bar> < 1 \<longrightarrow> \<bar>x\<bar> \<le> v)"
proof -
  let ?d = "below1 (sort_values_desc rank (unstack (abs_df m)))"
  have mem: "\<And>k w. (k, w) \<in> set ?d \<longleftrightarrow> (k, Some w) \<in> set (unstack (abs_df m)) \<and> w < 1"
    by (simp add: below1_mem sort_values_desc_set)
  have "((c0, r0), Some \<bar>x0\<bar>) \<in> set (unstack (abs_df m))"
    unfolding entries_unstack using assms(1) by force
  then have "((c0, r0), \<bar>x0\<bar>) \<in> set ?d" using assms(2) mem by blast
  then have "?d \<noteq> []" by auto
  from py_max_linorder[OF this] obtain i where
    pm: "py_max (\<lambda>a b. a > b) ?d = Inr (?d ! i)" by blast
  obtain a b v where abv: "?d ! i = ((a, b), v)" by (metis prod.collapse)
  from py_max_mem[of ?d "(a, b)" v] pm abv have
    m: "((a, b), v) \<in> set ?d" and mx: "\<forall>x\<in>set ?d. snd x \<le> v" by simp_all
  have r: "insight1 rank (Some m) = Inr (a, b, v)"
    using pm abv by (simp add: insight1_def)
  have "((a, b), Some v) \<in> set (unstack (abs_df m))" and lt: "v < 1"
    using m mem by blast+
  then obtain u where u: "((a, b), u) \<in> entries m" "Some v = map_option abs u"
    unfolding entries_unstack by blast
  then obtain x where x: "u = Some x" "v = \<bar>x\<bar>" by (cases u) auto
  have all: "\<forall>c r x. ((c, r), Some x) \<in> entries m \<and> \<bar>x\<bar> < 1 \<longrightarrow> \<bar>x\<bar> \<le> v"
  proof (intro allI impI)
    fix c r y assume h: "((c, r), Some y) \<in> entries m \<and> \<bar>y\<bar> < 1"
    then have "((c, r), Some \<bar>y\<bar>) \<in> set (unstack (abs_df m))"
      unfolding entries_unstack by force
    then have "((c, r), \<bar>y\<bar>) \<in> set ?d" using h mem by blast
    then show "\<bar>y\<bar> \<le> v" using mx by force
  qed
  from r u x lt all show ?thesis by blast
qed

lemma sqrt_16_64: "sqrt 16 = 4" "sqrt 64 = 8"
  by (rule real_sqrt_unique; simp)+

lemma pearson_123_246:
  "pearson [Some 1, Some 2, Some 3] [Some 2, Some 4, Some 6] = Some 1"
  "pearson [Some 2, Some 4, Some 6] [Some 1, Some 2, Some 3] = Some 1"
  "pearson [Some 2, Some 4, Some 6] [Some 2, Some 4, Some 6] = Some 1"
  "pearson [Some 2, Some 4, Some 6] [Some 1, Some 3, Some 2] = Some (1 / 2)"
  "pearson [Some 1, Some 3, Some 2] [Some 2, Some 4, Some 6] = Some (1 / 2)"
  by (simp_all add: pearson_def dropna2_def List.map_filter_def mean_def clip1_def sqrt_16_64)

text \<open>
  C4, as stated: with at least two numeric columns the insight reports a pair whose value
  is the maximum off-diagonal absolute entry of the correlation matrix. On the columns
  \<open>a = 1, 2, 3\<close>, \<open>b = 2, 4, 6\<close> and \<open>c = 1, 3, 2\<close> that maximum is 1 (\<open>a\<close> and \<open>b\<close> are
  perfectly correlated), while line 69 has removed every entry that is not below 1 and the
  value written is 1/2. On \<open>a\<close> and \<open>b\<close> alone line 69 leaves nothing, and line 70
  raises instead of reporting.
\<close>

theorem insight1_not_max_offdiag:
  "length (numeric_cols [(''a'', NumCol [Some 1, Some 2, Some 3]),
                         (''b'', NumCol [Some 2, Some 4, Some 6]),
                         (''c'', NumCol [Some 1, Some 3, Some 2])]) = 3
   \<and> Max (set (offdiag_abs (numeric_cols [(''a'', NumCol [Some 1, Some 2, Some 3]),
                         (''b'', NumCol [Some 2, Some 4, Some 6]),
                         (''c'', NumCol [Some 1, Some 3, Some 2])]))) = 1
   \<and> (case insight1 (tie_rank (pandas_at 0)) (corr_var (pandas_at 0) [(''a'', NumCol [Some 1, Some 2, Some 3]),
                         (''b'', NumCol [Some 2, Some 4, Some 6]),
                         (''c'', NumCol [Some 1, Some 3, Some 2])]) of
         Inl e \<Rightarrow> None | Inr (a, b, v) \<Rightarrow> Some v) = Some (1 / 2)
   \<and> insight1 (tie_rank (pandas_at 0)) (corr_var (pandas_at 0) [(''a'', NumCol [Some 1, Some 2, Some 3]),
                         (''b'', NumCol [Some 2, Some 4, Some 6])])
       = Inl ValueError"
proof -
  let ?T = "[(''a'', NumCol [Some 1, Some 2, Some 3]),
                         (''b'', NumCol [Some 2, Some 4, Some 6]),
                         (''c'', NumCol [Some 1, Some 3, Some 2])]"
  let ?U = "[(''a'', NumCol [Some 1, Some 2, Some 3]),
                         (''b'', NumCol [Some 2, Some 4, Some 6])]"
  have nc: "numeric_cols ?T = [(''a'', [Some 1, Some 2, Some 3]), (''b'', [Some 2, Some 4, Some 6]),
             (''c'', [Some 1, Some 3, Some 2])]"
    by simp
  have od: "offdiag_abs (numeric_cols ?T) = [1, 1 / 2, 1, 1 / 2, 1 / 2, 1 / 2]"
    unfolding nc by (simp add: offdiag_abs_def pearson_123_132 pearson_123_246)
  have mx: "Max (set (offdiag_abs (numeric_cols ?T))) = 1"
    unfolding od by simp
  have "insight1 (tie_rank (pandas_at 0)) (corr_var (pandas_at 0) ?T) = Inr (''a'', ''c'', 1 / 2)"
    by (simp add: pandas_at_def corr_var_def corr_df_def pearson_123_132 pearson_123_246
        insight1_def abs_df_def unstack_def sort_values_desc_def py_max_def)
  then have v: "(case insight1 (tie_rank (pandas_at 0)) (corr_var (pandas_at 0) ?T) of
         Inl e \<Rightarrow> None | Inr (a, b, v) \<Rightarrow> Some v) = Some (1 / 2)"
    by simp
  have e: "insight1 (tie_rank (pandas_at 0)) (corr_var (pandas_at 0) ?U) = Inl ValueError"
    by (simp add: pandas_at_def corr_var_def corr_df_def pearson_123_132 pearson_123_246
        insight1_def abs_df_def unstack_def sort_values_desc_def py_max_def)
  from mx nc v e show ?thesis by simp
qed

text \<open>
  C4, amended: whenever the correlation matrix bound at line 48 has an entry whose absolute
  value is strictly below 1, the correlation-pair insight reports the column label and the
  row label of such an entry together with its absolute value; that value lies in
  \<open>[0, 1)\<close> and is the largest absolute value below 1 in the matrix. Entries that are not
  below 1 are left out by their value, not by their labels: the two labels reported are
  different when no entry of the diagonal is below 1 in absolute value.
\<close>

theorem insight1_max_below_1:
  assumes "corr_var lib df = Some m"
    and "((c0, r0), Some x0) \<in> entries m" and "\<bar>x0\<bar> < 1"
  shows "\<exists>a b v. insight1 (tie_rank lib) (corr_var lib df) = Inr (a, b, v)
           \<and> (\<exists>x. ((a, b), Some x) \<in> entries m \<and> v = \<bar>x\<bar>)
           \<and> 0 \<le> v \<and> v < 1
           \<and> (\<forall>c r x. ((c, r), Some x) \<in> entries m \<and> \<bar>x\<bar> < 1 \<longrightarrow> \<bar>x\<bar> \<le> v)
           \<and> ((\<forall>c x. ((c, c), Some x) \<in> entries m \<longrightarrow> \<not> \<bar>x\<bar> < 1) \<longrightarrow> a \<noteq> b)"
proof -
  from insight1_reports[OF assms(2,3), of "tie_rank lib"] obtain a b v x where
    r: "insight1 (tie_rank lib) (Some m) = Inr (a, b, v)" and
    x: "((a, b), Some x) \<in> entries m" "v = \<bar>x\<bar>" and lt: "v < 1" and
    mx: "\<forall>c r x. ((c, r), Some x) \<in> entries m \<and> \<bar>x\<bar> < 1 \<longrightarrow> \<bar>x\<bar> \<le> v"
    by blast
  have nn: "0 \<le> v" using x(2) by simp
  have ne: "(\<forall>c x. ((c, c), Some x) \<in> entries m \<longrightarrow> \<not> \<bar>x\<bar> < 1) \<longrightarrow> a \<noteq> b"
    using x lt by blast
  from r x nn lt mx ne show ?thesis unfolding assms(1) by blast
qed

theorem insight1_max_below_1_witness:
  "corr_var (pandas_at 0)
      [(''a'', NumCol [Some 1, Some 2, Some 3]), (''b'', NumCol [Some 1, Some 3, Some 2]),
       (''index'', ObjCol [Some ''2020-01-01'', Some ''2020-01-01'', Some ''2020-01-02''])]
     = Some [(''a'', [(''a'', Some 1), (''b'', Some (1 / 2))]),
              (''b'', [(''a'', Some (1 / 2)), (''b'', Some 1)])]
   \<and> ((''a'', ''b''), Some (1 / 2)) \<in> entries [(''a'', [(''a'', Some 1), (''b'', Some (1 / 2))]),
              (''b'', [(''a'', Some (1 / 2)), (''b'', Some 1)])]
   \<and> (case insight1 (tie_rank (pandas_at 0)) (corr_var (pandas_at 0)
      [(''a'', NumCol [Some 1, Some 2, Some 3]), (''b'', NumCol [Some 1, Some 3, Some 2]),
       (''index'', ObjCol [Some ''2020-01-01'', Some ''2020-01-01'', Some ''2020-01-02''])]) of
         Inl e \<Rightarrow> None | Inr (a, b, v) \<Rightarrow> Some (a \<noteq> b, v)) = Some (True, 1 / 2)"
proof -
  let ?T = "[(''a'', NumCol [Some 1, Some 2, Some 3]), (''b'', NumCol [Some 1, Some 3, Some 2]),
       (''index'', ObjCol [Some ''2020-01-01'', Some ''2020-01-01'', Some ''2020-01-02''])]"
  let ?M = "[(''a'', [(''a'', Some 1), (''b'', Some (1 / 2))]),
              (''b'', [(''a'', Some (1 / 2)), (''b'', Some 1)])]"
  have h1: "corr_var (pandas_at 0) ?T = Some ?M"
    by (simp add: pandas_at_def corr_var_def corr_df_def pearson_123_132)
  have h2: "((''a'', ''b''), Some (1 / 2)) \<in> entries ?M"
    by (simp add: entries_def)
  have h3: "\<bar>1 / 2 :: real\<bar> < 1" by simp
  have vals: "\<And>c r x. ((c, r), Some x) \<in> entries ?M \<Longrightarrow> x = 1 \<or> x = 1 / 2"
    by (auto simp: entries_def)
  have diag: "\<forall>c x. ((c, c), Some x) \<in> entries ?M \<longrightarrow> \<not> \<bar>x\<bar> < 1"
    by (auto simp: entries_def)
  from insight1_max_below_1[OF h1 h2 h3] obtain a b v x where
    r: "insight1 (tie_rank (pandas_at 0)) (corr_var (pandas_at 0) ?T) = Inr (a, b, v)" and
    x: "((a, b), Some x) \<in> entries ?M" "v = \<bar>x\<bar>" and lt: "v < 1" and
    ne: "(\<forall>c x. ((c, c), Some x) \<in> entries ?M \<longrightarrow> \<not> \<bar>x\<bar> < 1) \<longrightarrow> a \<noteq> b"
    by blast
  have "v = 1 / 2" using vals[OF x(1)] x(2) lt by auto
  moreover have "a \<noteq> b" using ne diag by blast
  ultimately have "(case insight1 (tie_rank (pandas_at 0)) (corr_var (pandas_at 0) ?T) of
         Inl e \<Rightarrow> None | Inr (a, b, v) \<Rightarrow> Some (a \<noteq> b, v)) = Some (True, 1 / 2)"
    using r by simp
  with h1 h2 show ?thesis by blast
qed

section \<open>Two runs on the same table\<close>

lemma time_loop_cong:
  assumes "\<forall>c\<in>set cs. to_datetime conv1 (snd c) = to_datetime conv2 (snd c)"
  shows "time_loop conv1 cs = time_loop conv2 cs"
  using assms by (induction cs) (auto split: sum.splits)

lemma datetime_cols_text:
  assumes "(n, Inl xs) \<in> set (datetime_cols df)"
  shows "(n, xs) \<in> set (categorical_cols df)"
  using assms by (induction df rule: datetime_cols.induct) auto

lemma categorical_cols_mem:
  assumes "(n, xs) \<in> set (categorical_cols df)"
  shows "(n, ObjCol xs) \<in> set df"
  using assms by (induction df rule: categorical_cols.induct) auto

lemma insight5_cong:
  assumes "\<forall>c\<in>set (categorical_cols df). conv1 (snd c) = conv2 (snd c)"
  shows "insight5 conv1 df = insight5 conv2 df"
proof -
  have "\<forall>c\<in>set (datetime_cols df). to_datetime conv1 (snd c) = to_datetime conv2 (snd c)"
  proof
    fix c assume m: "c \<in> set (datetime_cols df)"
    obtain n k where c: "c = (n, k)" by (cases c)
    show "to_datetime conv1 (snd c) = to_datetime conv2 (snd c)"
    proof (cases k)
      case (Inl xs)
      then have "(n, xs) \<in> set (categorical_cols df)" using m c datetime_cols_text by blast
      then have "conv1 xs = conv2 xs" using assms by force
      then show ?thesis using c Inl by simp
    next
      case (Inr ds)
      then show ?thesis using c by simp
    qed
  qed
  then have "time_loop conv1 (datetime_cols df) = time_loop conv2 (datetime_cols df)"
    by (rule time_loop_cong)
  then show ?thesis by (simp add: insight5_def)
qed

lemma compute_fst:
  "fst (compute lib df) =
     (case category_counts df of
        Inl e \<Rightarrow> Inl e
      | Inr u \<Rightarrow>
          (case insight1 (tie_rank lib) (corr_var lib df) of
             Inl e \<Rightarrow> Inl e
           | Inr r1 \<Rightarrow>
               (case insight3 df of
                  Inl e \<Rightarrow> Inl e
                | Inr r3 \<Rightarrow>
                    (case insight4 df of
                       Inl e \<Rightarrow> Inl e
                     | Inr r4 \<Rightarrow>
                         Inr \<lparr>top_pair = r1, most_missing = insight2 df, most_imbalanced = r3,
                              most_outliers = r4,
                              time_trend = fst (insight5 (pd_to_datetime lib) df)\<rparr>))))"
  by (simp add: compute_def split: sum.splits prod.splits)

lemma corr_var_update [simp]:
  "corr_var (lib\<lparr>pd_to_datetime := conv\<rparr>) df = corr_var lib df"
  by (simp add: corr_var_def)

lemma example_clock_run:
  "fst (compute (pandas_at now)
      [(''a'', NumCol [Some 1, Some 2, Some 3]), (''b'', NumCol [Some 1, Some 3, Some 2]),
       (''index'', ObjCol [Some ''now'', None, None])])
   = Inr \<lparr>top_pair = (''a'', ''b'', 1 / 2), most_missing = Some (''index'', 2),
          most_imbalanced = Some (''index'', Some 100), most_outliers = (''a'', 0),
          time_trend = Some (''index'', ''a'', [(now, 1)])\<rparr>"
proof -
  let ?T = "[(''a'', NumCol [Some 1, Some 2, Some 3]), (''b'', NumCol [Some 1, Some 3, Some 2]),
       (''index'', ObjCol [Some ''now'', None, None])]"
  have c: "category_counts ?T = Inr ()"
    by (simp add: category_counts_def)
  have i1: "insight1 (tie_rank (pandas_at now)) (corr_var (pandas_at now) ?T)
      = Inr (''a'', ''b'', 1 / 2)"
    by (simp add: pandas_at_def corr_var_def corr_df_def pearson_123_132 insight1_def abs_df_def
        unstack_def sort_values_desc_def py_max_def)
  have i2: "insight2 ?T = Some (''index'', 2)"
    by (simp add: insight2_def py_max_def)
  have i3: "insight3 ?T = Inr (Some (''index'', Some 100))"
    by (simp add: insight3_def py_max_def dominance_def)
  have i4: "insight4 ?T = Inr (''a'', 0)"
    by (simp add: insight4_def py_max_def outliers_def quantile_def)
  have i5: "fst (insight5 (pd_to_datetime (pandas_at now)) ?T) = Some (''index'', ''a'', [(now, 1)])"
    by (simp add: insight5_def pandas_at_def example_to_datetime_values dropna2_def
        List.map_filter_def groupby_mean_def mean_def)
  show ?thesis unfolding compute_reports[OF c i1 i3 i4] i2 i5 by simp
qed

text \<open>
  C9, as stated: two runs of the insight computation on the identical table give the
  identical report. They need not: \<open>pd.to_datetime\<close> reads the clock for a cell \<open>now\<close>.
  On the table with the numeric columns \<open>a\<close> and \<open>b\<close> and the text column \<open>index\<close> with the
  single present cell \<open>now\<close>, a run one minute after another reports another time trend.
\<close>

theorem two_runs_differ:
  "(case fst (compute (pandas_at 1700000000000000000)
      [(''a'', NumCol [Some 1, Some 2, Some 3]), (''b'', NumCol [Some 1, Some 3, Some 2]),
       (''index'', ObjCol [Some ''now'', None, None])]) of
      Inl e \<Rightarrow> None | Inr r \<Rightarrow> time_trend r)
     = Some (''index'', ''a'', [(1700000000000000000, 1)])
   \<and> (case fst (compute (pandas_at 1700000060000000000)
      [(''a'', NumCol [Some 1, Some 2, Some 3]), (''b'', NumCol [Some 1, Some 3, Some 2]),
       (''index'', ObjCol [Some ''now'', None, None])]) of
      Inl e \<Rightarrow> None | Inr r \<Rightarrow> time_trend r)
     = Some (''index'', ''a'', [(1700000060000000000, 1)])
   \<and> fst (compute (pandas_at 1700000000000000000)
      [(''a'', NumCol [Some 1, Some 2, Some 3]), (''b'', NumCol [Some 1, Some 3, Some 2]),
       (''index'', ObjCol [Some ''now'', None, None])])
     \<noteq> fst (compute (pandas_at 1700000060000000000)
      [(''a'', NumCol [Some 1, Some 2, Some 3]), (''b'', NumCol [Some 1, Some 3, Some 2]),
       (''index'', ObjCol [Some ''now'', None, None])])"
  by (simp add: example_clock_run)

text \<open>
  C9, amended: let a second run on the identical table differ from the first only in what
  \<open>pd.to_datetime\<close> answers. Both runs then stop with the same error or both report, and
  they report the same insights 1 to 4. When \<open>pd.to_datetime\<close> answers alike on the text
  columns of the table in both runs, which it does unless a cell is read from the clock,
  the two runs give the identical report and leave the identical table.
\<close>

theorem two_runs_agree:
  "((\<forall>n xs. (n, ObjCol xs) \<in> set df \<longrightarrow> pd_to_datetime lib xs = conv xs)
       \<longrightarrow> compute (lib\<lparr>pd_to_datetime := conv\<rparr>) df = compute lib df)
   \<and> (\<forall>e. fst (compute (lib\<lparr>pd_to_datetime := conv\<rparr>) df) = Inl e
           \<longleftrightarrow> fst (compute lib df) = Inl e)
   \<and> (\<forall>r1 r2. fst (compute lib df) = Inr r1
           \<and> fst (compute (lib\<lparr>pd_to_datetime := conv\<rparr>) df) = Inr r2 \<longrightarrow>
         top_pair r2 = top_pair r1 \<and> most_missing r2 = most_missing r1
         \<and> most_imbalanced r2 = most_imbalanced r1 \<and> most_outliers r2 = most_outliers r1)"
proof -
  let ?lib2 = "lib\<lparr>pd_to_datetime := conv\<rparr>"
  have a: "(\<forall>n xs. (n, ObjCol xs) \<in> set df \<longrightarrow> pd_to_datetime lib xs = conv xs)
       \<longrightarrow> compute ?lib2 df = compute lib df"
  proof
    assume "\<forall>n xs. (n, ObjCol xs) \<in> set df \<longrightarrow> pd_to_datetime lib xs = conv xs"
    then have "\<forall>c\<in>set (categorical_cols df). pd_to_datetime lib (snd c) = conv (snd c)"
      using categorical_cols_mem by force
    then have "insight5 (pd_to_datetime lib) df = insight5 conv df"
      by (rule insight5_cong)
    then show "compute ?lib2 df = compute lib df"
      by (simp add: compute_def Let_def split: sum.splits prod.splits)
  qed
  have b: "\<forall>e. fst (compute ?lib2 df) = Inl e \<longleftrightarrow> fst (compute lib df) = Inl e"
    by (simp add: compute_fst split: sum.splits)
  have c: "\<forall>r1 r2. fst (compute lib df) = Inr r1 \<and> fst (compute ?lib2 df) = Inr r2 \<longrightarrow>
         top_pair r2 = top_pair r1 \<and> most_missing r2 = most_missing r1
         \<and> most_imbalanced r2 = most_imbalanced r1 \<and> most_outliers r2 = most_outliers r1"
    by (auto simp: compute_fst split: sum.splits)
  from a b c show ?thesis by blast
qed

theorem two_runs_agree_witness:
  "pd_to_datetime (pandas_at 1) [Some ''2020-01-01'', Some ''2020-01-01'', Some ''2020-01-02'']
     = example_to_datetime 2 [Some ''2020-01-01'', Some ''2020-01-01'', Some ''2020-01-02'']
   \<and> compute (pandas_at 2)
      [(''a'', NumCol [Some 1, Some 2, Some 3]), (''b'', NumCol [Some 1, Some 3, Some 2]),
       (''index'', ObjCol [Some ''2020-01-01'', Some ''2020-01-01'', Some ''2020-01-02''])]
     = compute (pandas_at 1)
      [(''a'', NumCol [Some 1, Some 2, Some 3]), (''b'', NumCol [Some 1, Some 3, Some 2]),
       (''index'', ObjCol [Some ''2020-01-01'', Some ''2020-01-01'', Some ''2020-01-02''])]"
proof -
  let ?T = "[(''a'', NumCol [Some 1, Some 2, Some 3]), (''b'', NumCol [Some 1, Some 3, Some 2]),
       (''index'', ObjCol [Some ''2020-01-01'', Some ''2020-01-01'', Some ''2020-01-02''])]"
  have u: "pandas_at 2 = (pandas_at 1)\<lparr>pd_to_datetime := example_to_datetime 2\<rparr>"
    by (simp add: pandas_at_def)
  have e: "pd_to_datetime (pandas_at 1)
             [Some ''2020-01-01'', Some ''2020-01-01'', Some ''2020-01-02'']
     = example_to_datetime 2 [Some ''2020-01-01'', Some ''2020-01-01'', Some ''2020-01-02'']"
    by (simp add: pandas_at_def example_to_datetime_values)
  have h: "\<forall>n xs. (n, ObjCol xs) \<in> set ?T
      \<longrightarrow> pd_to_datetime (pandas_at 1) xs = example_to_datetime 2 xs"
    using e by simp
  have "(\<forall>n xs. (n, ObjCol xs) \<in> set ?T
          \<longrightarrow> pd_to_datetime (pandas_at 1) xs = example_to_datetime 2 xs)
       \<longrightarrow> compute ((pandas_at 1)\<lparr>pd_to_datetime := example_to_datetime 2\<rparr>) ?T
            = compute (pandas_at 1) ?T"
    using two_runs_agree[of ?T "pandas_at 1" "example_to_datetime 2"] by blast
  with h have "compute (pandas_at 2) ?T = compute (pandas_at 1) ?T" unfolding u by blast
  with e show ?thesis by blast
qed

end
